theory Spec2Isabelle
  imports Complex_Main "HOL-Library.Word"
begin

section \<open>Forecast enrichment engine of the VIEWS conflict-forecast service\<close>

text \<open>
  The development embeds \<^verbatim>\<open>services/forecast_service.py\<close>,
  \<^verbatim>\<open>services/data_service.py\<close> and \<^verbatim>\<open>models/schemas.py\<close>.
  Python floats are embedded as \<^typ>\<open>real\<close>, Python
  integers as \<^typ>\<open>int\<close>, pandas frames as lists of typed rows in frame order, a
  column that may be missing or hold NaN as an \<^typ>\<open>'a option\<close>, and every
  \<^verbatim>\<open>raise\<close> as the \<open>Inl\<close> branch of a sum. Rounding is modelled
  where an integer result depends on it (the seed of the generator), and the form in
  which a row holds an identifier (integer or float64) where its text is read (the string
  that is hashed). Identifiers are below \<open>2^53\<close> in magnitude, so that a float64 holds
  them exactly; a NaN or an infinity in a numeric column other than \<open>country_id\<close> is
  outside the model.
\<close>

subsection \<open>Errors (utils/exceptions.py) and Python built-ins\<close>

text \<open>
  \<open>DataNotFoundError\<close> and \<open>ValidationError\<close> are the two classes of
  \<^verbatim>\<open>utils/exceptions.py\<close> that the service layer imports; the message of an
  exception is not kept. \<open>ValueError\<close> is Python's built-in (raised by \<^verbatim>\<open>int\<close>,
  \<^verbatim>\<open>min\<close> of an empty list and by the validators of \<open>GridCellData\<close>).
\<close>

datatype error = DataNotFoundError | ValidationError | ValueError

text \<open>\<^verbatim>\<open>str(n)\<close> for an integer: the decimal representation, with a sign when negative.\<close>

definition digit_char :: "nat \<Rightarrow> char" where
  "digit_char d = ''0123456789abcdef'' ! d"

fun str_nat :: "nat \<Rightarrow> string" where
  "str_nat n = (if n < 10 then [digit_char n] else str_nat (n div 10) @ [digit_char (n mod 10)])"

declare str_nat.simps [simp del]

definition str :: "int \<Rightarrow> string" where
  "str i = (if i < 0 then CHR ''-'' # str_nat (nat (- i)) else str_nat (nat i))"

text \<open>
  A whole number as Python holds it: an integer, or the float64 of that value.
  \<^verbatim>\<open>str\<close> of the float prints the digits followed by \<open>.0\<close>.
\<close>

datatype py_number = AsInt int | AsFloat int

fun str_number :: "py_number \<Rightarrow> string" where
  "str_number (AsInt i) = str i"
| "str_number (AsFloat i) = str i @ ''.0''"

text \<open>\<^verbatim>\<open>int(x)\<close> for a float truncates towards zero.\<close>

definition int_of_float :: "real \<Rightarrow> int" where
  "int_of_float x = (if x < 0 then \<lceil>x\<rceil> else \<lfloor>x\<rfloor>)"

text \<open>
  \<^verbatim>\<open>int(s, 16)\<close> on a string of hexadecimal digits (either case); any other
  character, and the empty string, raise \<open>ValueError\<close>.
\<close>

definition hex_val :: "char \<Rightarrow> nat option" where
  "hex_val c =
     (let n = (of_char c :: nat) in
      if 48 \<le> n \<and> n \<le> 57 then Some (n - 48)
      else if 97 \<le> n \<and> n \<le> 102 then Some (n - 87)
      else if 65 \<le> n \<and> n \<le> 70 then Some (n - 55)
      else None)"

fun int_base16_acc :: "nat \<Rightarrow> string \<Rightarrow> error + nat" where
  "int_base16_acc acc [] = Inr acc"
| "int_base16_acc acc (c # cs) =
     (case hex_val c of
        None \<Rightarrow> Inl ValueError
      | Some d \<Rightarrow> int_base16_acc (16 * acc + d) cs)"

definition int_base16 :: "string \<Rightarrow> error + nat" where
  "int_base16 s = (if s = [] then Inl ValueError else int_base16_acc 0 s)"

text \<open>Truthiness of an \<^verbatim>\<open>Optional[int]\<close> and Python's \<^verbatim>\<open>a or b\<close> on optional numbers.\<close>

definition truthy :: "int option \<Rightarrow> bool" where
  "truthy x = (case x of None \<Rightarrow> False | Some v \<Rightarrow> v \<noteq> 0)"

definition py_or :: "real option \<Rightarrow> real option \<Rightarrow> real option" where
  "py_or a b = (case a of None \<Rightarrow> b | Some v \<Rightarrow> if v \<noteq> 0 then Some v else b)"

subsection \<open>Library functions taken as parameters\<close>

text \<open>
  \<^verbatim>\<open>hashlib.md5\<close>, numpy's global generator and the multiplication of doubles
  are not part of the repository. They are parameters of the model: \<open>md5\<close> maps the
  hashed bytes to the 128-bit digest, \<open>float_mul\<close> is the product of two doubles
  rounded to a double, \<open>random_seed n\<close> is the generator state that
  \<^verbatim>\<open>np.random.seed(n)\<close> installs, and \<open>random_sample\<close> draws the next double
  from a state and returns the state that follows. The type \<open>'g\<close> of generator
  states is left open.
\<close>

record 'g libs =
  md5 :: "string \<Rightarrow> 128 word"
  float_mul :: "real \<Rightarrow> real \<Rightarrow> real"
  random_seed :: "nat \<Rightarrow> 'g"
  random_sample :: "'g \<Rightarrow> real \<times> 'g"

text \<open>\<^verbatim>\<open>hexdigest()\<close>: the 32 lower-case hexadecimal digits of the digest, first byte first.\<close>

fun hex_digits :: "nat \<Rightarrow> nat \<Rightarrow> string" where
  "hex_digits 0 n = []"
| "hex_digits (Suc k) n = hex_digits k (n div 16) @ [digit_char (n mod 16)]"

definition hexdigest :: "128 word \<Rightarrow> string" where
  "hexdigest w = hex_digits 32 (unat w)"

text \<open>\<^verbatim>\<open>np.random.uniform(low, high)\<close> is \<open>low + (high - low) * random_sample()\<close>.\<close>

definition uniform :: "'g libs \<Rightarrow> real \<Rightarrow> real \<Rightarrow> 'g \<Rightarrow> real \<times> 'g" where
  "uniform L low high g = (case random_sample L g of (u, g') \<Rightarrow> (low + (high - low) * u, g'))"

subsection \<open>Schemas (models/schemas.py)\<close>

datatype ConflictType = STATE_BASED | NON_STATE | ONE_SIDED




record MetricSelection =
  include_map :: bool
  include_hdi_50 :: bool
  include_hdi_90 :: bool
  include_hdi_99 :: bool
  include_thresholds :: bool
  conflict_types :: "ConflictType list"



record GridCellData =
  grid_id :: int
  month_id :: int
  country_id :: "int option"
  latitude :: "real option"
  longitude :: "real option"
  main_mean :: "real option"
  main_mean_ln :: "real option"
  main_dich :: "real option"
  hdi_50_lower :: "real option"
  hdi_50_upper :: "real option"
  hdi_90_lower :: "real option"
  hdi_90_upper :: "real option"
  hdi_99_lower :: "real option"
  hdi_99_upper :: "real option"
  threshold_1 :: "real option"
  threshold_2 :: "real option"
  threshold_3 :: "real option"
  threshold_4 :: "real option"
  threshold_5 :: "real option"
  threshold_6 :: "real option"
  conflict_type :: "ConflictType option"
  country_name :: "string option"
  year :: "int option"
  month :: "int option"

text \<open>The two validators of \<open>GridCellData\<close>, run when a record is constructed.\<close>

definition validate_latitude :: "real option \<Rightarrow> error + real option" where
  "validate_latitude v =
     (case v of
        None \<Rightarrow> Inr v
      | Some x \<Rightarrow> if \<not> (- 90 \<le> x \<and> x \<le> 90) then Inl ValueError else Inr v)"

definition validate_longitude :: "real option \<Rightarrow> error + real option" where
  "validate_longitude v =
     (case v of
        None \<Rightarrow> Inr v
      | Some x \<Rightarrow> if \<not> (- 180 \<le> x \<and> x \<le> 180) then Inl ValueError else Inr v)"

definition GridCellData_init :: "GridCellData \<Rightarrow> error + GridCellData" where
  "GridCellData_init c =
     (case validate_latitude (latitude c) of
        Inl e \<Rightarrow> Inl e
      | Inr _ \<Rightarrow>
          (case validate_longitude (longitude c) of
             Inl e \<Rightarrow> Inl e
           | Inr _ \<Rightarrow> Inr c))"

subsection \<open>Source frames and the data service (services/data_service.py)\<close>

text \<open>
  One record type per frame, a field per column the service reads (prefixed by the
  frame, since columns of different frames share names). An optional field is a column
  read with \<^verbatim>\<open>.get\<close>: \<open>None\<close> when the column is missing, and for
  \<open>country_id\<close> also when the cell is NaN. A row of the primary frame is the
  \<^verbatim>\<open>Series\<close> that \<^verbatim>\<open>iterrows()\<close> yields: \<open>pgm_float64\<close> tells whether
  that Series has dtype float64, as it has on a frame whose columns are all numeric and
  one of them holds floats (the frames the service synthesizes and the fixture of the
  tests are such); the integers of the row are then held as floats. \<open>row_pg_id\<close> is
  \<^verbatim>\<open>row['pg_id']\<close> as the Series holds it.
\<close>

record pgm_row =
  pgm_float64 :: bool
  pgm_pg_id :: int
  pgm_month_id :: int
  pgm_main_mean :: "real option"
  pgm_main_mean_ln :: "real option"
  pgm_main_dich :: "real option"
  pgm_country_id :: "int option"

definition row_pg_id :: "pgm_row \<Rightarrow> py_number" where
  "row_pg_id row = (if pgm_float64 row then AsFloat (pgm_pg_id row) else AsInt (pgm_pg_id row))"

record hdi_row =
  hdi_priogrid_id :: int
  hdi_month_id :: int
  pred_ln_sb_prob_hdi_lower :: "real option"
  pred_ln_sb_prob_hdi_upper :: "real option"

record coord_row =
  ts_priogrid_id :: int
  ts_lat :: "real option"
  ts_latitude :: "real option"
  ts_lon :: "real option"
  ts_longitude :: "real option"
  ts_country_id :: "int option"

record country_row =
  cm_country_id :: int
  cm_country :: string
  cm_isoab :: "string option"

text \<open>
  The state of a \<open>DataService\<close>. After \<^verbatim>\<open>load_data\<close> the frames
  \<open>pgm_data\<close>, \<open>hdi_data\<close> and \<open>timeseries_data\<close> are always set, so they are
  lists; \<open>country_data\<close> keeps its \<^verbatim>\<open>None\<close> because
  \<^verbatim>\<open>get_available_countries\<close> branches on it.
\<close>

record DataService =
  pgm_data :: "pgm_row list"
  country_data :: "country_row list option"
  hdi_data :: "hdi_row list"
  timeseries_data :: "coord_row list"
  country_grid_mapping :: "(int \<times> int list) list"
  is_loaded :: bool

text \<open>\<^verbatim>\<open>if month_ids:\<close> is false for \<^verbatim>\<open>None\<close> and for the empty list alike.\<close>

definition month_filter :: "int list option \<Rightarrow> int \<Rightarrow> bool" where
  "month_filter month_ids m =
     (case month_ids of
        None \<Rightarrow> True
      | Some ms \<Rightarrow> if ms \<noteq> [] then m \<in> set ms else True)"

definition get_grid_data :: "DataService \<Rightarrow> int list \<Rightarrow> int list option \<Rightarrow> error + pgm_row list" where
  "get_grid_data ds grid_ids month_ids =
     (if \<not> is_loaded ds then Inl DataNotFoundError
      else
        let result = filter (\<lambda>r. pgm_pg_id r \<in> set grid_ids \<and> month_filter month_ids (pgm_month_id r))
                       (pgm_data ds)
        in if result = [] then Inl DataNotFoundError else Inr result)"

definition get_hdi_data :: "DataService \<Rightarrow> int list \<Rightarrow> int list option \<Rightarrow> hdi_row list" where
  "get_hdi_data ds grid_ids month_ids =
     filter (\<lambda>h. hdi_priogrid_id h \<in> set grid_ids \<and> month_filter month_ids (hdi_month_id h))
       (hdi_data ds)"

definition get_coordinates :: "DataService \<Rightarrow> int list \<Rightarrow> coord_row list" where
  "get_coordinates ds grid_ids =
     (if timeseries_data ds = [] then []
      else if grid_ids = [] then timeseries_data ds
      else filter (\<lambda>c. ts_priogrid_id c \<in> set grid_ids) (timeseries_data ds))"

text \<open>\<^verbatim>\<open>drop_duplicates\<close> keeps the first occurrence of every row, in frame order.\<close>

definition drop_duplicates :: "'a list \<Rightarrow> 'a list" where
  "drop_duplicates xs = rev (remdups (rev xs))"

definition get_available_months :: "DataService \<Rightarrow> int list" where
  "get_available_months ds =
     (if \<not> is_loaded ds then [] else sort (remdups (map pgm_month_id (pgm_data ds))))"

definition get_available_countries :: "DataService \<Rightarrow> country_row list" where
  "get_available_countries ds =
     (if \<not> is_loaded ds then []
      else
        case country_data ds of
          Some rows \<Rightarrow> drop_duplicates rows
        | None \<Rightarrow>
            if country_grid_mapping ds \<noteq> [] then
              map (\<lambda>(cid, _). \<lparr>cm_country_id = cid, cm_country = ''Country '' @ str cid, cm_isoab = None\<rparr>)
                (country_grid_mapping ds)
            else [])"

definition get_total_grid_cells :: "DataService \<Rightarrow> nat" where
  "get_total_grid_cells ds =
     (if \<not> is_loaded ds then 0 else length (remdups (map pgm_pg_id (pgm_data ds))))"

subsection \<open>The forecast service (services/forecast_service.py)\<close>

text \<open>
  The coordinate fallback exists twice in the source, as the method
  \<^verbatim>\<open>_generate_coordinates_for_grid\<close> and as the function \<^verbatim>\<open>generate_coordinates\<close>
  nested in the orchestrator; both are embedded. (A leading underscore is dropped: a
  name cannot start with one.) The argument is the grid id as the caller holds it:
  \<^verbatim>\<open>str(grid_id)\<close> is what is hashed.
\<close>

definition generate_coordinates_for_grid :: "'g libs \<Rightarrow> py_number \<Rightarrow> error + real \<times> real" where
  "generate_coordinates_for_grid L gid =
     (let hash_input = str_number gid;
          hash_obj = md5 L hash_input
      in case int_base16 (take 8 (hexdigest hash_obj)) of
           Inl e \<Rightarrow> Inl e
         | Inr hash_int \<Rightarrow>
             let lat = real (hash_int mod 13000) / 100 - 60;
                 lon = real ((hash_int div 13000) mod 36000) / 100 - 180
             in Inr (lat, lon))"

definition generate_coordinates :: "'g libs \<Rightarrow> py_number \<Rightarrow> error + real \<times> real" where
  "generate_coordinates L gid =
     (let hash_input = str_number gid;
          hash_obj = md5 L hash_input
      in case int_base16 (take 8 (hexdigest hash_obj)) of
           Inl e \<Rightarrow> Inl e
         | Inr hash_int \<Rightarrow>
             let lat = real (hash_int mod 13000) / 100 - 60;
                 lon = real ((hash_int div 13000) mod 36000) / 100 - 180
             in Inr (lat, lon))"

text \<open>The dictionary returned by \<^verbatim>\<open>_generate_synthetic_metrics\<close>, a field per key.\<close>

record synthetic_metrics =
  syn_hdi_50_lower :: real
  syn_hdi_50_upper :: real
  syn_hdi_99_lower :: real
  syn_hdi_99_upper :: real
  syn_threshold_2 :: real
  syn_threshold_3 :: real
  syn_threshold_4 :: real
  syn_threshold_5 :: real
  syn_threshold_6 :: real

definition seed_of_base_prob :: "'g libs \<Rightarrow> real \<Rightarrow> nat" where
  "seed_of_base_prob L base_prob = nat (int_of_float (float_mul L base_prob 10000) mod 2 ^ 32)"

text \<open>
  The global generator is threaded through: the function takes the state it finds and
  returns the state it leaves. The values of the dictionary are evaluated in the order
  they are written, one draw each.
\<close>

definition generate_synthetic_metrics :: "'g libs \<Rightarrow> real \<Rightarrow> 'g \<Rightarrow> synthetic_metrics \<times> 'g" where
  "generate_synthetic_metrics L base_prob g0 =
     (let g1 = random_seed L (seed_of_base_prob L base_prob);
          (d1, g2) = uniform L 0.001 0.005 g1;
          (d2, g3) = uniform L 0.001 0.005 g2;
          (d3, g4) = uniform L 0.01 0.03 g3;
          (d4, g5) = uniform L 0.01 0.03 g4;
          (d5, g6) = uniform L 0.001 0.01 g5;
          (d6, g7) = uniform L 0.01 0.02 g6;
          (d7, g8) = uniform L 0.02 0.04 g7;
          (d8, g9) = uniform L 0.03 0.06 g8;
          (d9, g10) = uniform L 0.05 0.08 g9
      in (\<lparr>syn_hdi_50_lower = max 0 (base_prob - d1),
           syn_hdi_50_upper = min 1 (base_prob + d2),
           syn_hdi_99_lower = max 0 (base_prob - d3),
           syn_hdi_99_upper = min 1 (base_prob + d4),
           syn_threshold_2 = max 0 (base_prob - d5),
           syn_threshold_3 = max 0 (base_prob - d6),
           syn_threshold_4 = max 0 (base_prob - d7),
           syn_threshold_5 = max 0 (base_prob - d8),
           syn_threshold_6 = max 0 (base_prob - d9)\<rparr>, g10))"

text \<open>
  \<^verbatim>\<open>_create_grid_cell_data\<close>, block by block. \<open>extract_coordinates\<close> is the
  triple \<^verbatim>\<open>(lat, lon, country_id_from_coord)\<close> read from the first coordinate row of
  the grid cell; \<open>resolve_coordinates\<close> is the fallback taken when either coordinate
  is \<^verbatim>\<open>None\<close>; \<open>extract_hdi_values\<close> is the pair of entries of the dictionary
  \<^verbatim>\<open>hdi_values\<close> (both \<open>None\<close> when it stays empty).
\<close>

definition extract_coordinates :: "coord_row list \<Rightarrow> int \<Rightarrow> real option \<times> real option \<times> int option" where
  "extract_coordinates coord_data gid =
     (case filter (\<lambda>c. ts_priogrid_id c = gid) coord_data of
        [] \<Rightarrow> (None, None, None)
      | coord_row # _ \<Rightarrow>
          (py_or (ts_lat coord_row) (ts_latitude coord_row),
           py_or (ts_lon coord_row) (ts_longitude coord_row),
           ts_country_id coord_row))"

definition resolve_coordinates ::
  "'g libs \<Rightarrow> real option \<Rightarrow> real option \<Rightarrow> py_number \<Rightarrow> error + real option \<times> real option" where
  "resolve_coordinates L lat lon gid =
     (if lat = None \<or> lon = None then
        (case generate_coordinates_for_grid L gid of
           Inl e \<Rightarrow> Inl e
         | Inr (lat', lon') \<Rightarrow> Inr (Some lat', Some lon'))
      else Inr (lat, lon))"

definition extract_hdi_values :: "hdi_row list \<Rightarrow> int \<Rightarrow> real option \<times> real option" where
  "extract_hdi_values hdi_frame gid =
     (case filter (\<lambda>h. hdi_priogrid_id h = gid) hdi_frame of
        [] \<Rightarrow> (None, None)
      | hdi_row # _ \<Rightarrow> (pred_ln_sb_prob_hdi_lower hdi_row, pred_ln_sb_prob_hdi_upper hdi_row))"

text \<open>\<^verbatim>\<open>main_row.get('main_dich', 0.01)\<close>.\<close>

definition base_prob_of :: "pgm_row \<Rightarrow> real" where
  "base_prob_of main_row = (case pgm_main_dich main_row of None \<Rightarrow> 0.01 | Some v \<Rightarrow> v)"

definition create_grid_cell_data ::
  "'g libs \<Rightarrow> pgm_row \<Rightarrow> hdi_row list \<Rightarrow> coord_row list \<Rightarrow> (int \<rightharpoonup> string) \<Rightarrow> MetricSelection \<Rightarrow> 'g
     \<Rightarrow> (error + GridCellData) \<times> 'g" where
  "create_grid_cell_data L main_row hdi_frame coord_data country_map metrics g =
     (let gid = pgm_pg_id main_row;
          coords = extract_coordinates coord_data gid;
          country_id_from_coord = snd (snd coords)
      in case resolve_coordinates L (fst coords) (fst (snd coords)) (row_pg_id main_row) of
           Inl e \<Rightarrow> (Inl e, g)
         | Inr (lat, lon) \<Rightarrow>
             let hdi_values = extract_hdi_values hdi_frame gid;
                 base_prob = base_prob_of main_row;
                 (synthetic, g') = generate_synthetic_metrics L base_prob g;
                 cid = (case pgm_country_id main_row of
                          None \<Rightarrow> country_id_from_coord
                        | Some c \<Rightarrow> Some c);
                 cname = (case cid of None \<Rightarrow> None | Some c \<Rightarrow> country_map c);
                 mid = pgm_month_id main_row;
                 y = 2025 + (mid - 548) div 12;
                 m = (mid - 548) mod 12 + 1
             in (GridCellData_init
                   \<lparr>grid_id = gid,
                    month_id = mid,
                    country_id = cid,
                    latitude = lat,
                    longitude = lon,
                    main_mean = (if include_map metrics then pgm_main_mean main_row else None),
                    main_mean_ln = (if include_map metrics then pgm_main_mean_ln main_row else None),
                    main_dich = (if include_thresholds metrics then pgm_main_dich main_row else None),
                    hdi_50_lower = (if include_hdi_50 metrics then Some (syn_hdi_50_lower synthetic) else None),
                    hdi_50_upper = (if include_hdi_50 metrics then Some (syn_hdi_50_upper synthetic) else None),
                    hdi_90_lower = (if include_hdi_90 metrics then fst hdi_values else None),
                    hdi_90_upper = (if include_hdi_90 metrics then snd hdi_values else None),
                    hdi_99_lower = (if include_hdi_99 metrics then Some (syn_hdi_99_lower synthetic) else None),
                    hdi_99_upper = (if include_hdi_99 metrics then Some (syn_hdi_99_upper synthetic) else None),
                    threshold_1 = (if include_thresholds metrics then Some base_prob else None),
                    threshold_2 = (if include_thresholds metrics then Some (syn_threshold_2 synthetic) else None),
                    threshold_3 = (if include_thresholds metrics then Some (syn_threshold_3 synthetic) else None),
                    threshold_4 = (if include_thresholds metrics then Some (syn_threshold_4 synthetic) else None),
                    threshold_5 = (if include_thresholds metrics then Some (syn_threshold_5 synthetic) else None),
                    threshold_6 = (if include_thresholds metrics then Some (syn_threshold_6 synthetic) else None),
                    conflict_type = Some STATE_BASED,
                    country_name = cname,
                    year = Some y,
                    month = Some m\<rparr>, g'))"

text \<open>
  The loop of \<^verbatim>\<open>_get_enriched_forecasts\<close> over the rows of \<open>main_data\<close>.
  \<open>coordinate_frame\<close> is the one-row frame \<^verbatim>\<open>coord_row\<close> of an iteration: the row
  of \<^verbatim>\<open>coord_lookup\<close>, or a row of generated coordinates. An exception in one
  iteration ends the call, the records built so far are lost.
\<close>

definition coordinate_frame :: "'g libs \<Rightarrow> (int \<rightharpoonup> coord_row) \<Rightarrow> pgm_row \<Rightarrow> error + coord_row list" where
  "coordinate_frame L coord_lookup row =
     (let gid = pgm_pg_id row
      in case coord_lookup gid of
           Some c \<Rightarrow> Inr [c]
         | None \<Rightarrow>
             (case generate_coordinates L (row_pg_id row) of
                Inl e \<Rightarrow> Inl e
              | Inr (lat, lon) \<Rightarrow>
                  Inr [\<lparr>ts_priogrid_id = gid, ts_lat = None, ts_latitude = Some lat,
                        ts_lon = None, ts_longitude = Some lon,
                        ts_country_id = pgm_country_id row\<rparr>]))"

definition hdi_rows_for :: "hdi_row list \<Rightarrow> pgm_row \<Rightarrow> hdi_row list" where
  "hdi_rows_for hdi row =
     filter (\<lambda>h. hdi_priogrid_id h = pgm_pg_id row \<and> hdi_month_id h = pgm_month_id row) hdi"

fun enrich_rows ::
  "'g libs \<Rightarrow> hdi_row list \<Rightarrow> (int \<rightharpoonup> coord_row) \<Rightarrow> (int \<rightharpoonup> string) \<Rightarrow> MetricSelection
     \<Rightarrow> pgm_row list \<Rightarrow> 'g \<Rightarrow> (error + GridCellData list) \<times> 'g" where
  "enrich_rows L hdi coord_lookup country_map metrics [] g = (Inr [], g)"
| "enrich_rows L hdi coord_lookup country_map metrics (row # rows) g =
     (case coordinate_frame L coord_lookup row of
        Inl e \<Rightarrow> (Inl e, g)
      | Inr coord_row \<Rightarrow>
          (case create_grid_cell_data L row (hdi_rows_for hdi row) coord_row country_map metrics g of
             (Inl e, g') \<Rightarrow> (Inl e, g')
           | (Inr cell_data, g') \<Rightarrow>
               (case enrich_rows L hdi coord_lookup country_map metrics rows g' of
                  (Inl e, g'') \<Rightarrow> (Inl e, g'')
                | (Inr cells, g'') \<Rightarrow> (Inr (cell_data # cells), g''))))"

text \<open>The two dictionaries the orchestrator builds; a later row replaces an earlier one.\<close>

definition build_country_map :: "country_row list \<Rightarrow> (int \<rightharpoonup> string)" where
  "build_country_map cs = fold (\<lambda>c m. m(cm_country_id c \<mapsto> cm_country c)) cs Map.empty"

definition build_coord_lookup :: "coord_row list \<Rightarrow> (int \<rightharpoonup> coord_row)" where
  "build_coord_lookup cs = fold (\<lambda>c m. m(ts_priogrid_id c \<mapsto> c)) cs Map.empty"

definition get_enriched_forecasts ::
  "'g libs \<Rightarrow> DataService \<Rightarrow> int list \<Rightarrow> int list option \<Rightarrow> MetricSelection \<Rightarrow> 'g
     \<Rightarrow> (error + GridCellData list) \<times> 'g" where
  "get_enriched_forecasts L ds grid_ids month_ids metrics g =
     (case get_grid_data ds grid_ids month_ids of
        Inl e \<Rightarrow> (Inl e, g)
      | Inr main_data \<Rightarrow>
          let hdi = get_hdi_data ds grid_ids month_ids;
              all_coords = get_coordinates ds grid_ids;
              country_map = build_country_map (get_available_countries ds);
              coord_lookup = build_coord_lookup all_coords
          in enrich_rows L hdi coord_lookup country_map metrics main_data g)"

text \<open>\<^verbatim>\<open>x or d\<close> for an optional month, and \<^verbatim>\<open>min\<close>/\<^verbatim>\<open>max\<close> of a list.\<close>

definition or_default :: "int option \<Rightarrow> error + int \<Rightarrow> error + int" where
  "or_default x d = (case x of None \<Rightarrow> d | Some v \<Rightarrow> if v \<noteq> 0 then Inr v else d)"

definition py_min :: "int list \<Rightarrow> error + int" where
  "py_min xs = (case xs of [] \<Rightarrow> Inl ValueError | x # rest \<Rightarrow> Inr (fold min rest x))"

definition py_max :: "int list \<Rightarrow> error + int" where
  "py_max xs = (case xs of [] \<Rightarrow> Inl ValueError | x # rest \<Rightarrow> Inr (fold max rest x))"

definition get_forecasts_by_grid ::
  "'g libs \<Rightarrow> DataService \<Rightarrow> int list \<Rightarrow> int option \<Rightarrow> int option \<Rightarrow> MetricSelection \<Rightarrow> 'g
     \<Rightarrow> (error + GridCellData list) \<times> 'g" where
  "get_forecasts_by_grid L ds grid_ids month_start month_end metrics g =
     (if truthy month_start \<or> truthy month_end then
        let all_months = get_available_months ds
        in case or_default month_start (py_min all_months) of
             Inl e \<Rightarrow> (Inl e, g)
           | Inr start \<Rightarrow>
               (case or_default month_end (py_max all_months) of
                  Inl e \<Rightarrow> (Inl e, g)
                | Inr end_month \<Rightarrow>
                    get_enriched_forecasts L ds grid_ids
                      (Some (filter (\<lambda>m. start \<le> m \<and> m \<le> end_month) all_months)) metrics g)
      else get_enriched_forecasts L ds grid_ids None metrics g)"

text \<open>\<^verbatim>\<open>get_basic_info\<close>; \<open>date_range\<close> is \<open>None\<close> for the empty dictionary.\<close>

definition format_02d :: "int \<Rightarrow> string" where
  "format_02d n = (if 0 \<le> n \<and> n < 10 then CHR ''0'' # str n else str n)"

record BasicInfo =
  available_months :: "int list"
  total_grid_cells :: nat
  countries_available :: nat
  date_range :: "(string \<times> string) option"
  api_version :: string
  data_version :: string

definition get_basic_info :: "DataService \<Rightarrow> BasicInfo" where
  "get_basic_info ds =
     (let months = get_available_months ds;
          countries = get_available_countries ds;
          total_cells = get_total_grid_cells ds;
          dr =
            (case months of
               [] \<Rightarrow> None
             | start_month # _ \<Rightarrow>
                 let end_month = last months;
                     start_year = 2025 + (start_month - 548) div 12;
                     start_month_num = (start_month - 548) mod 12 + 1;
                     end_year = 2025 + (end_month - 548) div 12;
                     end_month_num = (end_month - 548) mod 12 + 1
                 in Some (str start_year @ ''-'' @ format_02d start_month_num,
                          str end_year @ ''-'' @ format_02d end_month_num))
      in \<lparr>available_months = months,
          total_grid_cells = total_cells,
          countries_available = length countries,
          date_range = dr,
          api_version = ''1.0.0'',
          data_version = ''2025.07''\<rparr>)"

subsection \<open>Assumption on the generator, and a relation between two projections\<close>

text \<open>\<^verbatim>\<open>random_sample\<close> returns a double of the half-open interval from 0 to 1.\<close>

definition unit_draws :: "'g libs \<Rightarrow> bool" where
  "unit_draws L = (\<forall>g. 0 \<le> fst (random_sample L g) \<and> fst (random_sample L g) < 1)"

text \<open>Two values of a nullable field that differ at most by one of them being null.\<close>

definition null_or_same :: "'a option \<Rightarrow> 'a option \<Rightarrow> bool" where
  "null_or_same a b = (a = None \<or> b = None \<or> a = b)"

subsection \<open>Example data\<close>

text \<open>
  The examples follow the fixtures of \<^verbatim>\<open>tests/test_main.py\<close>: grid cells 62356,
  62357 and 62358 in month 548, country 1 named Testland, interval and coordinate rows for
  the first two cells only. The example generator keeps the seed and the number of draws
  made; after seed 5000 (the seed of the estimate 0.5) its first nine draws are the doubles
  \<open>k / 2^53\<close> that MT19937, numpy's generator, yields for that seed, any other draw is
  \<open>1/2\<close>. The example digests are the MD5 digests of the strings \<open>62358\<close>,
  \<open>62358.0\<close> and \<open>999999\<close>. The example product is exact; on the factors the
  examples multiply (0.01, 0.02, 0.03, 0.5 and 0.999 by 10000) the product of the doubles
  is the same number. The rows of the example store are float64 rows, as the rows of the
  fixture are.
\<close>

definition mt19937_5000 :: "nat \<Rightarrow> real" where
  "mt19937_5000 i =
     (if i = 0 then 2063079761168919 / 2 ^ 53
      else if i = 1 then 3248624382016498 / 2 ^ 53
      else if i = 2 then 6554115540665334 / 2 ^ 53
      else if i = 3 then 1014821366708850 / 2 ^ 53
      else if i = 4 then 5474311346320620 / 2 ^ 53
      else if i = 5 then 7347617944126274 / 2 ^ 53
      else if i = 6 then 8838488851674497 / 2 ^ 53
      else if i = 7 then 574162487246682 / 2 ^ 53
      else if i = 8 then 7205396849255742 / 2 ^ 53
      else 1 / 2)"

definition sample_libs :: "(nat \<times> nat) libs" where
  "sample_libs =
     \<lparr>md5 = (\<lambda>s. if s = ''62358'' then 0xe09cf63fbc45739100dffed37d069c8a
                 else if s = ''62358.0'' then 0x33dbf2881dda390e4fa513beacc31a21
                 else if s = ''999999'' then 0x52c69e3a57331081823331c4e69d3f2e
                 else 0),
      float_mul = (\<lambda>a b. a * b),
      random_seed = (\<lambda>n. (n, 0)),
      random_sample = (\<lambda>(n, i). (if n = 5000 then mt19937_5000 i else 1 / 2, (n, Suc i)))\<rparr>"

definition sample_row :: "int \<Rightarrow> int \<Rightarrow> real \<Rightarrow> real \<Rightarrow> pgm_row" where
  "sample_row gid mid mean dich =
     \<lparr>pgm_float64 = True, pgm_pg_id = gid, pgm_month_id = mid, pgm_main_mean = Some mean,
      pgm_main_mean_ln = Some mean, pgm_main_dich = Some dich, pgm_country_id = Some 1\<rparr>"

definition sample_store :: DataService where
  "sample_store =
     \<lparr>pgm_data =
        [sample_row 62356 548 0.001 0.01, sample_row 62357 548 0.002 0.02,
         sample_row 62358 548 0.003 0.03],
      country_data =
        Some [\<lparr>cm_country_id = 1, cm_country = ''Testland'', cm_isoab = Some ''TST''\<rparr>],
      hdi_data =
        [\<lparr>hdi_priogrid_id = 62356, hdi_month_id = 548,
          pred_ln_sb_prob_hdi_lower = Some 0.005, pred_ln_sb_prob_hdi_upper = Some 0.015\<rparr>,
         \<lparr>hdi_priogrid_id = 62357, hdi_month_id = 548,
          pred_ln_sb_prob_hdi_lower = Some 0.010, pred_ln_sb_prob_hdi_upper = Some 0.025\<rparr>],
      timeseries_data =
        [\<lparr>ts_priogrid_id = 62356, ts_lat = None, ts_latitude = Some 45, ts_lon = None,
          ts_longitude = Some 12, ts_country_id = None\<rparr>,
         \<lparr>ts_priogrid_id = 62357, ts_lat = None, ts_latitude = Some 46, ts_lon = None,
          ts_longitude = Some 13, ts_country_id = None\<rparr>],
      country_grid_mapping = [(1, [62356, 62357, 62358])],
      is_loaded = True\<rparr>"

text \<open>The default \<open>MetricSelection()\<close>, and the selection with every flag off.\<close>

definition sample_metrics :: MetricSelection where
  "sample_metrics =
     \<lparr>include_map = True, include_hdi_50 = False, include_hdi_90 = True,
      include_hdi_99 = False, include_thresholds = True, conflict_types = [STATE_BASED]\<rparr>"

definition no_metrics :: MetricSelection where
  "no_metrics =
     \<lparr>include_map = False, include_hdi_50 = False, include_hdi_90 = False,
      include_hdi_99 = False, include_thresholds = False, conflict_types = [STATE_BASED]\<rparr>"

text \<open>
  The records the example run is expected to return: \<open>bare_cell\<close> is a record with
  no metric group selected, \<open>default_cell\<close> a record under the default selection
  (no 50% and no 99% band).
\<close>

definition bare_cell :: "int \<Rightarrow> real \<Rightarrow> real \<Rightarrow> GridCellData" where
  "bare_cell gid lat lon =
     \<lparr>grid_id = gid, month_id = 548, country_id = Some 1,
      latitude = Some lat, longitude = Some lon,
      main_mean = None, main_mean_ln = None, main_dich = None,
      hdi_50_lower = None, hdi_50_upper = None, hdi_90_lower = None, hdi_90_upper = None,
      hdi_99_lower = None, hdi_99_upper = None,
      threshold_1 = None, threshold_2 = None, threshold_3 = None, threshold_4 = None,
      threshold_5 = None, threshold_6 = None,
      conflict_type = Some STATE_BASED, country_name = Some ''Testland'',
      year = Some 2025, month = Some 1\<rparr>"

definition default_cell ::
  "int \<Rightarrow> real \<Rightarrow> real \<Rightarrow> real \<Rightarrow> real \<Rightarrow> real option \<Rightarrow> real option \<Rightarrow> real \<Rightarrow> real
     \<Rightarrow> GridCellData" where
  "default_cell gid lat lon mean dich lower upper t2 t3 =
     (bare_cell gid lat lon)
       \<lparr>main_mean := Some mean, main_mean_ln := Some mean, main_dich := Some dich,
        hdi_90_lower := lower, hdi_90_upper := upper,
        threshold_1 := Some dich, threshold_2 := Some t2, threshold_3 := Some t3,
        threshold_4 := Some 0, threshold_5 := Some 0, threshold_6 := Some 0\<rparr>"

definition sample_cells :: "GridCellData list" where
  "sample_cells =
     [default_cell 62356 45 12 0.001 0.01 (Some 0.005) (Some 0.015) 0.0045 0,
      default_cell 62357 46 13 0.002 0.02 (Some 0.010) (Some 0.025) 0.0145 0.005,
      default_cell 62358 (- 45.12) 129.27 0.003 0.03 None None 0.0245 0.015]"

section \<open>Properties\<close>

subsection \<open>The first eight hexadecimal digits of a digest are its first 32 bits\<close>

lemma hex_val_digit_char: "d < 16 \<Longrightarrow> hex_val (digit_char d) = Some d"
proof -
  assume "d < 16"
  then have "d \<in> {0, 1, 2, 3, 4, 5, 6, 7, 8, 9, 10, 11, 12, 13, 14, 15}"
    by (simp only: insert_iff empty_iff) arith
  then show ?thesis
    by (auto simp: hex_val_def digit_char_def)
qed

lemma length_hex_digits: "length (hex_digits k n) = k"
  by (induction k arbitrary: n) simp_all

lemma int_base16_acc_append:
  "int_base16_acc acc (xs @ ys) =
     (case int_base16_acc acc xs of Inl e \<Rightarrow> Inl e | Inr a \<Rightarrow> int_base16_acc a ys)"
  by (induction xs arbitrary: acc) (simp_all split: option.splits)

lemma int_base16_acc_hex_digits:
  "int_base16_acc acc (hex_digits k n) = Inr (acc * 16 ^ k + n mod 16 ^ k)"
proof (induction k arbitrary: n)
  case 0
  show ?case by simp
next
  case (Suc k)
  have "n mod (16 * 16 ^ k) = 16 * (n div 16 mod 16 ^ k) + n mod 16"
    by (rule mod_mult2_eq)
  then show ?case
    by (simp add: int_base16_acc_append Suc.IH hex_val_digit_char algebra_simps)
qed

lemma take_hex_digits: "take k (hex_digits (k + j) n) = hex_digits k (n div 16 ^ j)"
proof (induction j arbitrary: n)
  case 0
  show ?case by (simp add: length_hex_digits)
next
  case (Suc j)
  have "n div 16 div 16 ^ j = n div (16 * 16 ^ j)"
    by (simp add: div_mult2_eq)
  then show ?case
    by (simp add: length_hex_digits Suc.IH)
qed

lemma first_32_bits: "int_base16 (take 8 (hexdigest w)) = Inr (unat (drop_bit 96 w))"
proof -
  define m where "m = unat w div 16 ^ 24"
  have t: "take 8 (hexdigest w) = hex_digits 8 m"
    using take_hex_digits [of 8 24 "unat w"] by (simp add: hexdigest_def m_def)
  have ne: "hex_digits 8 m \<noteq> []"
    using length_hex_digits [of 8 m] by auto
  have "unat w < 2 ^ 128"
    using unsigned_less [of w, where ?'a = nat] by simp
  then have small: "m < 16 ^ 8"
    by (simp add: m_def less_mult_imp_div_less)
  have "unat (drop_bit 96 w) = drop_bit 96 (unat w)"
    by (rule unat_drop_bit_eq)
  also have "\<dots> = unat w div 2 ^ 96"
    by (rule drop_bit_eq_div)
  also have "\<dots> = m"
    by (simp add: m_def)
  finally have h: "unat (drop_bit 96 w) = m" .
  have "int_base16 (hex_digits 8 m) = Inr (m mod 16 ^ 8)"
    using ne by (simp add: int_base16_def int_base16_acc_hex_digits)
  then show ?thesis
    using small by (simp add: t h)
qed


subsection \<open>The coordinate fallback in closed form\<close>

lemma generate_coordinates_for_grid_eq:
  "generate_coordinates_for_grid L gid =
     Inr (real (unat (drop_bit 96 (md5 L (str_number gid))) mod 13000) / 100 - 60,
          real (unat (drop_bit 96 (md5 L (str_number gid))) div 13000 mod 36000) / 100 - 180)"
  by (simp add: generate_coordinates_for_grid_def first_32_bits Let_def)

lemma generate_coordinates_eq:
  "generate_coordinates L gid = generate_coordinates_for_grid L gid"
  by (simp add: generate_coordinates_def generate_coordinates_for_grid_def)

lemma latitude_range: "- 60 \<le> real (h mod 13000) / 100 - 60 \<and> real (h mod 13000) / 100 - 60 < 70"
proof -
  have "h mod 13000 < 13000" by simp
  then have "real (h mod 13000) < 13000" by linarith
  then show ?thesis by simp
qed

lemma longitude_range:
  "- 180 \<le> real (h div 13000 mod 36000) / 100 - 180 \<and> real (h div 13000 mod 36000) / 100 - 180 < 180"
proof -
  have "h div 13000 mod 36000 < 36000" by simp
  then have "real (h div 13000 mod 36000) < 36000" by linarith
  then show ?thesis by simp
qed

subsection \<open>The draws of the synthetic metrics\<close>

lemma uniform_range:
  assumes "unit_draws L" and "low < high"
  shows "low \<le> fst (uniform L low high g) \<and> fst (uniform L low high g) < high"
proof -
  define u where "u = fst (random_sample L g)"
  have u: "0 \<le> u" "u < 1"
    using assms(1) by (simp_all add: unit_draws_def u_def)
  have v: "fst (uniform L low high g) = low + (high - low) * u"
    by (simp add: uniform_def u_def case_prod_beta)
  have "0 \<le> (high - low) * u"
    using u(1) assms(2) by simp
  moreover have "(high - low) * u < (high - low) * 1"
    using u(2) assms(2) by (intro mult_strict_left_mono) simp_all
  ultimately show ?thesis
    by (simp add: v)
qed

lemma synthetic_metrics_draws:
  assumes "unit_draws L"
  obtains d1 d2 d3 d4 d5 d6 d7 d8 d9 where
    "fst (generate_synthetic_metrics L p g) =
       \<lparr>syn_hdi_50_lower = max 0 (p - d1), syn_hdi_50_upper = min 1 (p + d2),
        syn_hdi_99_lower = max 0 (p - d3), syn_hdi_99_upper = min 1 (p + d4),
        syn_threshold_2 = max 0 (p - d5), syn_threshold_3 = max 0 (p - d6),
        syn_threshold_4 = max 0 (p - d7), syn_threshold_5 = max 0 (p - d8),
        syn_threshold_6 = max 0 (p - d9)\<rparr>"
    "0.001 \<le> d1 \<and> d1 < 0.005" "0.001 \<le> d2 \<and> d2 < 0.005"
    "0.01 \<le> d3 \<and> d3 < 0.03" "0.01 \<le> d4 \<and> d4 < 0.03"
    "0.001 \<le> d5 \<and> d5 < 0.01" "0.01 \<le> d6 \<and> d6 < 0.02"
    "0.02 \<le> d7 \<and> d7 < 0.04" "0.03 \<le> d8 \<and> d8 < 0.06"
    "0.05 \<le> d9 \<and> d9 < 0.08"
proof -
  define g1 where "g1 = random_seed L (seed_of_base_prob L p)"
  define g2 where "g2 = snd (uniform L 0.001 0.005 g1)"
  define g3 where "g3 = snd (uniform L 0.001 0.005 g2)"
  define g4 where "g4 = snd (uniform L 0.01 0.03 g3)"
  define g5 where "g5 = snd (uniform L 0.01 0.03 g4)"
  define g6 where "g6 = snd (uniform L 0.001 0.01 g5)"
  define g7 where "g7 = snd (uniform L 0.01 0.02 g6)"
  define g8 where "g8 = snd (uniform L 0.02 0.04 g7)"
  define g9 where "g9 = snd (uniform L 0.03 0.06 g8)"
  have eq: "fst (generate_synthetic_metrics L p g) =
       \<lparr>syn_hdi_50_lower = max 0 (p - fst (uniform L 0.001 0.005 g1)),
        syn_hdi_50_upper = min 1 (p + fst (uniform L 0.001 0.005 g2)),
        syn_hdi_99_lower = max 0 (p - fst (uniform L 0.01 0.03 g3)),
        syn_hdi_99_upper = min 1 (p + fst (uniform L 0.01 0.03 g4)),
        syn_threshold_2 = max 0 (p - fst (uniform L 0.001 0.01 g5)),
        syn_threshold_3 = max 0 (p - fst (uniform L 0.01 0.02 g6)),
        syn_threshold_4 = max 0 (p - fst (uniform L 0.02 0.04 g7)),
        syn_threshold_5 = max 0 (p - fst (uniform L 0.03 0.06 g8)),
        syn_threshold_6 = max 0 (p - fst (uniform L 0.05 0.08 g9))\<rparr>"
    unfolding generate_synthetic_metrics_def g1_def g2_def g3_def g4_def g5_def g6_def g7_def
      g8_def g9_def
    by (simp add: Let_def case_prod_beta)
  show thesis
    by (rule that [OF eq]) (rule uniform_range [OF assms], simp)+
qed


subsection \<open>A record that was built\<close>

lemma GridCellData_init_Inr: "GridCellData_init c = Inr c' \<Longrightarrow> c' = c"
  by (auto simp: GridCellData_init_def split: sum.splits)

lemma GridCellData_init_Inl: "GridCellData_init c = Inl e \<Longrightarrow> e = ValueError"
  by (auto simp: GridCellData_init_def validate_latitude_def validate_longitude_def
      split: sum.splits option.splits if_splits)

lemma GridCellData_init_valid:
  "GridCellData_init c = Inr c' \<Longrightarrow>
     (\<forall>x. latitude c = Some x \<longrightarrow> - 90 \<le> x \<and> x \<le> 90) \<and>
     (\<forall>x. longitude c = Some x \<longrightarrow> - 180 \<le> x \<and> x \<le> 180)"
  by (auto simp: GridCellData_init_def validate_latitude_def validate_longitude_def
      split: sum.splits option.splits if_splits)

lemma resolve_coordinates_eq:
  "resolve_coordinates L lat lon gid =
     Inr (if lat = None \<or> lon = None
          then (Some (real (unat (drop_bit 96 (md5 L (str_number gid))) mod 13000) / 100 - 60),
                Some (real (unat (drop_bit 96 (md5 L (str_number gid))) div 13000 mod 36000) / 100 - 180))
          else (lat, lon))"
  by (simp add: resolve_coordinates_def generate_coordinates_for_grid_eq)

lemma create_grid_cell_data_Inr:
  assumes "create_grid_cell_data L row hf cf cm metrics g = (Inr c, g')"
  shows "c =
     \<lparr>grid_id = pgm_pg_id row,
      month_id = pgm_month_id row,
      country_id = (case pgm_country_id row of
                      None \<Rightarrow> snd (snd (extract_coordinates cf (pgm_pg_id row)))
                    | Some c \<Rightarrow> Some c),
      latitude = fst (projr (resolve_coordinates L (fst (extract_coordinates cf (pgm_pg_id row)))
                    (fst (snd (extract_coordinates cf (pgm_pg_id row)))) (row_pg_id row))),
      longitude = snd (projr (resolve_coordinates L (fst (extract_coordinates cf (pgm_pg_id row)))
                    (fst (snd (extract_coordinates cf (pgm_pg_id row)))) (row_pg_id row))),
      main_mean = (if include_map metrics then pgm_main_mean row else None),
      main_mean_ln = (if include_map metrics then pgm_main_mean_ln row else None),
      main_dich = (if include_thresholds metrics then pgm_main_dich row else None),
      hdi_50_lower = (if include_hdi_50 metrics
        then Some (syn_hdi_50_lower (fst (generate_synthetic_metrics L (base_prob_of row) g))) else None),
      hdi_50_upper = (if include_hdi_50 metrics
        then Some (syn_hdi_50_upper (fst (generate_synthetic_metrics L (base_prob_of row) g))) else None),
      hdi_90_lower = (if include_hdi_90 metrics then fst (extract_hdi_values hf (pgm_pg_id row)) else None),
      hdi_90_upper = (if include_hdi_90 metrics then snd (extract_hdi_values hf (pgm_pg_id row)) else None),
      hdi_99_lower = (if include_hdi_99 metrics
        then Some (syn_hdi_99_lower (fst (generate_synthetic_metrics L (base_prob_of row) g))) else None),
      hdi_99_upper = (if include_hdi_99 metrics
        then Some (syn_hdi_99_upper (fst (generate_synthetic_metrics L (base_prob_of row) g))) else None),
      threshold_1 = (if include_thresholds metrics then Some (base_prob_of row) else None),
      threshold_2 = (if include_thresholds metrics
        then Some (syn_threshold_2 (fst (generate_synthetic_metrics L (base_prob_of row) g))) else None),
      threshold_3 = (if include_thresholds metrics
        then Some (syn_threshold_3 (fst (generate_synthetic_metrics L (base_prob_of row) g))) else None),
      threshold_4 = (if include_thresholds metrics
        then Some (syn_threshold_4 (fst (generate_synthetic_metrics L (base_prob_of row) g))) else None),
      threshold_5 = (if include_thresholds metrics
        then Some (syn_threshold_5 (fst (generate_synthetic_metrics L (base_prob_of row) g))) else None),
      threshold_6 = (if include_thresholds metrics
        then Some (syn_threshold_6 (fst (generate_synthetic_metrics L (base_prob_of row) g))) else None),
      conflict_type = Some STATE_BASED,
      country_name = (case (case pgm_country_id row of
                      None \<Rightarrow> snd (snd (extract_coordinates cf (pgm_pg_id row)))
                    | Some c \<Rightarrow> Some c) of None \<Rightarrow> None | Some c \<Rightarrow> cm c),
      year = Some (2025 + (pgm_month_id row - 548) div 12),
      month = Some ((pgm_month_id row - 548) mod 12 + 1)\<rparr>"
proof -
  obtain ll where ll: "resolve_coordinates L (fst (extract_coordinates cf (pgm_pg_id row)))
      (fst (snd (extract_coordinates cf (pgm_pg_id row)))) (row_pg_id row) = Inr ll"
    using resolve_coordinates_eq by blast
  show ?thesis
    using assms unfolding create_grid_cell_data_def Let_def ll case_prod_beta sum.case sum.sel
    by (simp only: prod.inject GridCellData_init_Inr)
qed

subsection \<open>The records of a successful run and the rows they come from\<close>

lemma enrich_rows_cells:
  assumes "enrich_rows L hdi cl cm metrics rows g = (Inr cells, g')" and "c \<in> set cells"
  shows "\<exists>row \<in> set rows. \<exists>cf g1 g2.
           coordinate_frame L cl row = Inr cf \<and>
           create_grid_cell_data L row (hdi_rows_for hdi row) cf cm metrics g1 = (Inr c, g2)"
  using assms
proof (induction rows arbitrary: g cells)
  case Nil
  then show ?case by simp
next
  case (Cons row rows)
  from Cons.prems(1) obtain cf cell g1 rest where
    cf: "coordinate_frame L cl row = Inr cf" and
    cell: "create_grid_cell_data L row (hdi_rows_for hdi row) cf cm metrics g = (Inr cell, g1)" and
    rest: "enrich_rows L hdi cl cm metrics rows g1 = (Inr rest, g')" and
    cells: "cells = cell # rest"
    by (auto split: sum.splits prod.splits)
  show ?case
  proof (cases "c = cell")
    case True
    with cf cell show ?thesis by auto
  next
    case False
    with Cons.prems(2) cells have "c \<in> set rest" by simp
    from Cons.IH [OF rest this] show ?thesis by auto
  qed
qed

lemma enrich_rows_length:
  "enrich_rows L hdi cl cm metrics rows g = (Inr cells, g') \<Longrightarrow> length cells = length rows"
  by (induction rows arbitrary: g cells) (auto split: sum.splits prod.splits)

lemma fold_upd_None:
  "fold (\<lambda>c m. m(f c \<mapsto> c)) cs m0 k = None \<longleftrightarrow> k \<notin> f ` set cs \<and> m0 k = None"
  by (induction cs arbitrary: m0) auto

lemma build_coord_lookup_None:
  "build_coord_lookup cs k = None \<longleftrightarrow> k \<notin> ts_priogrid_id ` set cs"
  by (simp add: build_coord_lookup_def fold_upd_None)

lemma get_coordinates_subset: "set (get_coordinates ds gids) \<subseteq> set (timeseries_data ds)"
  by (auto simp: get_coordinates_def)

lemma get_grid_data_Inr:
  assumes "get_grid_data ds gids mids = Inr rows"
  shows "rows \<noteq> []"
    and "rows = filter (\<lambda>r. pgm_pg_id r \<in> set gids \<and> month_filter mids (pgm_month_id r)) (pgm_data ds)"
  using assms by (auto simp: get_grid_data_def Let_def split: if_splits)

lemma case_filter_find:
  "(case filter P xs of [] \<Rightarrow> a | x # _ \<Rightarrow> f x) = (case find P xs of None \<Rightarrow> a | Some x \<Rightarrow> f x)"
  by (induction xs) simp_all

lemma extract_hdi_values_store:
  assumes "pgm_pg_id row \<in> set gids" and "month_filter mids (pgm_month_id row)"
  shows "extract_hdi_values (hdi_rows_for (get_hdi_data ds gids mids) row) (pgm_pg_id row) =
     (case find (\<lambda>h. hdi_priogrid_id h = pgm_pg_id row \<and> hdi_month_id h = pgm_month_id row) (hdi_data ds) of
        None \<Rightarrow> (None, None)
      | Some h \<Rightarrow> (pred_ln_sb_prob_hdi_lower h, pred_ln_sb_prob_hdi_upper h))"
proof -
  have "filter (\<lambda>h. hdi_priogrid_id h = pgm_pg_id row)
          (hdi_rows_for (get_hdi_data ds gids mids) row) =
        filter (\<lambda>h. hdi_priogrid_id h = pgm_pg_id row \<and> hdi_month_id h = pgm_month_id row) (hdi_data ds)"
    unfolding hdi_rows_for_def get_hdi_data_def filter_filter
    using assms by (intro filter_cong) auto
  then show ?thesis
    by (simp add: extract_hdi_values_def case_filter_find)
qed

lemma get_enriched_forecasts_cells:
  assumes "get_enriched_forecasts L ds gids mids metrics g = (Inr cells, g')" and "c \<in> set cells"
  obtains row cf g1 g2 where
    "row \<in> set (pgm_data ds)" "pgm_pg_id row \<in> set gids" "month_filter mids (pgm_month_id row)"
    "coordinate_frame L (build_coord_lookup (get_coordinates ds gids)) row = Inr cf"
    "create_grid_cell_data L row (hdi_rows_for (get_hdi_data ds gids mids) row) cf
       (build_country_map (get_available_countries ds)) metrics g1 = (Inr c, g2)"
proof -
  from assms(1) obtain rows where
    rows: "get_grid_data ds gids mids = Inr rows" and
    run: "enrich_rows L (get_hdi_data ds gids mids) (build_coord_lookup (get_coordinates ds gids))
            (build_country_map (get_available_countries ds)) metrics rows g = (Inr cells, g')"
    by (auto simp: get_enriched_forecasts_def Let_def split: sum.splits)
  from enrich_rows_cells [OF run assms(2)] obtain row cf g1 g2 where
    r: "row \<in> set rows" and
    cf: "coordinate_frame L (build_coord_lookup (get_coordinates ds gids)) row = Inr cf" and
    cell: "create_grid_cell_data L row (hdi_rows_for (get_hdi_data ds gids mids) row) cf
       (build_country_map (get_available_countries ds)) metrics g1 = (Inr c, g2)"
    by blast
  from r get_grid_data_Inr(2) [OF rows] have
    sel: "row \<in> set (pgm_data ds)" "pgm_pg_id row \<in> set gids" "month_filter mids (pgm_month_id row)"
    by auto
  from sel cf cell show thesis by (rule that)
qed

lemma get_enriched_forecasts_nonempty:
  assumes "get_enriched_forecasts L ds gids mids metrics g = (Inr cells, g')"
  shows "cells \<noteq> []"
proof -
  from assms obtain rows where
    rows: "get_grid_data ds gids mids = Inr rows" and
    run: "enrich_rows L (get_hdi_data ds gids mids) (build_coord_lookup (get_coordinates ds gids))
            (build_country_map (get_available_countries ds)) metrics rows g = (Inr cells, g')"
    by (auto simp: get_enriched_forecasts_def Let_def split: sum.splits)
  from enrich_rows_length [OF run] get_grid_data_Inr(1) [OF rows] show ?thesis by auto
qed

subsection \<open>The conflict-type tags are never read; the calendar fields\<close>

lemma create_grid_cell_data_conflict_types:
  "create_grid_cell_data L row hf cf cm (metrics\<lparr>conflict_types := tags\<rparr>) g =
   create_grid_cell_data L row hf cf cm metrics g"
  unfolding create_grid_cell_data_def Let_def case_prod_beta
  by (simp split del: if_split cong: sum.case_cong)

lemma enrich_rows_conflict_types:
  "enrich_rows L hdi cl cm (metrics\<lparr>conflict_types := tags\<rparr>) rows g =
   enrich_rows L hdi cl cm metrics rows g"
  by (induction rows arbitrary: g)
    (simp_all add: create_grid_cell_data_conflict_types cong: sum.case_cong prod.case_cong)

lemma get_enriched_forecasts_conflict_types:
  "get_enriched_forecasts L ds gids mids (metrics\<lparr>conflict_types := tags\<rparr>) g =
   get_enriched_forecasts L ds gids mids metrics g"
  by (simp add: get_enriched_forecasts_def enrich_rows_conflict_types Let_def cong: sum.case_cong)

lemma calendar_of_created_record:
  assumes "create_grid_cell_data L row hf cf cm metrics g = (Inr c, g')"
  shows "year c = Some (2025 + (pgm_month_id row - 548) div 12)"
    and "month c = Some ((pgm_month_id row - 548) mod 12 + 1)"
  by (subst create_grid_cell_data_Inr [OF assms], simp)+

subsection \<open>Fields of a built record; failures of the orchestrator\<close>

lemma created_fields:
  assumes "create_grid_cell_data L row hf cf cm metrics g = (Inr c, g')"
  shows "grid_id c = pgm_pg_id row"
    and "month_id c = pgm_month_id row"
    and "country_id c = (case pgm_country_id row of
                      None \<Rightarrow> snd (snd (extract_coordinates cf (pgm_pg_id row)))
                    | Some c \<Rightarrow> Some c)"
    and "latitude c = fst (projr (resolve_coordinates L (fst (extract_coordinates cf (pgm_pg_id row)))
                    (fst (snd (extract_coordinates cf (pgm_pg_id row)))) (row_pg_id row)))"
    and "longitude c = snd (projr (resolve_coordinates L (fst (extract_coordinates cf (pgm_pg_id row)))
                    (fst (snd (extract_coordinates cf (pgm_pg_id row)))) (row_pg_id row)))"
    and "main_mean c = (if include_map metrics then pgm_main_mean row else None)"
    and "main_mean_ln c = (if include_map metrics then pgm_main_mean_ln row else None)"
    and "main_dich c = (if include_thresholds metrics then pgm_main_dich row else None)"
    and "hdi_50_lower c = (if include_hdi_50 metrics
        then Some (syn_hdi_50_lower (fst (generate_synthetic_metrics L (base_prob_of row) g))) else None)"
    and "hdi_50_upper c = (if include_hdi_50 metrics
        then Some (syn_hdi_50_upper (fst (generate_synthetic_metrics L (base_prob_of row) g))) else None)"
    and "hdi_90_lower c = (if include_hdi_90 metrics then fst (extract_hdi_values hf (pgm_pg_id row)) else None)"
    and "hdi_90_upper c = (if include_hdi_90 metrics then snd (extract_hdi_values hf (pgm_pg_id row)) else None)"
    and "hdi_99_lower c = (if include_hdi_99 metrics
        then Some (syn_hdi_99_lower (fst (generate_synthetic_metrics L (base_prob_of row) g))) else None)"
    and "hdi_99_upper c = (if include_hdi_99 metrics
        then Some (syn_hdi_99_upper (fst (generate_synthetic_metrics L (base_prob_of row) g))) else None)"
    and "threshold_1 c = (if include_thresholds metrics then Some (base_prob_of row) else None)"
    and "threshold_2 c = (if include_thresholds metrics
        then Some (syn_threshold_2 (fst (generate_synthetic_metrics L (base_prob_of row) g))) else None)"
    and "threshold_3 c = (if include_thresholds metrics
        then Some (syn_threshold_3 (fst (generate_synthetic_metrics L (base_prob_of row) g))) else None)"
    and "threshold_4 c = (if include_thresholds metrics
        then Some (syn_threshold_4 (fst (generate_synthetic_metrics L (base_prob_of row) g))) else None)"
    and "threshold_5 c = (if include_thresholds metrics
        then Some (syn_threshold_5 (fst (generate_synthetic_metrics L (base_prob_of row) g))) else None)"
    and "threshold_6 c = (if include_thresholds metrics
        then Some (syn_threshold_6 (fst (generate_synthetic_metrics L (base_prob_of row) g))) else None)"
    and "conflict_type c = Some STATE_BASED"
    and "country_name c = (case (case pgm_country_id row of
                      None \<Rightarrow> snd (snd (extract_coordinates cf (pgm_pg_id row)))
                    | Some c \<Rightarrow> Some c) of None \<Rightarrow> None | Some c \<Rightarrow> cm c)"
    and "year c = Some (2025 + (pgm_month_id row - 548) div 12)"
    and "month c = Some ((pgm_month_id row - 548) mod 12 + 1)"
  by (subst create_grid_cell_data_Inr [OF assms], simp)+

lemma synthetic_metrics_state_independent:
  "generate_synthetic_metrics L p g1 = generate_synthetic_metrics L p g2"
  by (simp add: generate_synthetic_metrics_def)

lemma seed_of_base_prob_floor:
  "0 \<le> float_mul L p 10000 \<Longrightarrow>
     seed_of_base_prob L p = nat (\<lfloor>float_mul L p 10000\<rfloor> mod 2 ^ 32)"
  by (simp add: seed_of_base_prob_def int_of_float_def)

lemma synthetic_metrics_seed_only:
  assumes "random_sample L' = random_sample L"
    and "random_seed L' (seed_of_base_prob L' p) = random_seed L (seed_of_base_prob L p)"
  shows "generate_synthetic_metrics L' p g' = generate_synthetic_metrics L p g"
  using assms by (simp add: generate_synthetic_metrics_def uniform_def)

lemma create_grid_cell_data_Inl:
  "create_grid_cell_data L row hf cf cm metrics g = (Inl e, g') \<Longrightarrow> e = ValueError"
  by (auto simp: create_grid_cell_data_def resolve_coordinates_eq Let_def case_prod_beta
      dest: GridCellData_init_Inl)

lemma coordinate_frame_Inr: "\<not> isl (coordinate_frame L cl row)"
  by (simp add: coordinate_frame_def generate_coordinates_eq generate_coordinates_for_grid_eq
      Let_def split: option.splits)

lemma enrich_rows_Inl:
  "enrich_rows L hdi cl cm metrics rows g = (Inl e, g') \<Longrightarrow> e = ValueError"
proof (induction rows arbitrary: g)
  case Nil
  then show ?case by simp
next
  case (Cons row rows)
  from coordinate_frame_Inr [of L cl row] obtain cf where
    cf: "coordinate_frame L cl row = Inr cf"
    by (cases "coordinate_frame L cl row") auto
  from Cons.prems show ?case
    by (auto simp: cf split: sum.splits prod.splits dest: create_grid_cell_data_Inl Cons.IH)
qed

lemma get_enriched_forecasts_Inl:
  assumes "get_enriched_forecasts L ds gids mids metrics g = (Inl e, g')"
  shows "e = DataNotFoundError \<or> e = ValueError"
  using assms
  by (auto simp: get_enriched_forecasts_def get_grid_data_def Let_def
      split: sum.splits if_splits dest: enrich_rows_Inl)

lemma get_enriched_forecasts_no_rows:
  assumes "filter (\<lambda>r. pgm_pg_id r \<in> set gids \<and> month_filter mids (pgm_month_id r)) (pgm_data ds) = []"
  shows "get_enriched_forecasts L ds gids mids metrics g = (Inl DataNotFoundError, g)"
  using assms by (simp add: get_enriched_forecasts_def get_grid_data_def)

subsection \<open>The coordinate of a grid cell without a coordinate row\<close>

lemma fallback_coordinate_of_run:
  assumes "get_enriched_forecasts L ds grid_ids month_ids metrics g = (Inr cells, g')"
    and "c \<in> set cells"
    and "grid_id c \<notin> ts_priogrid_id ` set (timeseries_data ds)"
  shows "\<exists>row \<in> set (pgm_data ds). pgm_pg_id row = grid_id c \<and>
     (let h = unat (drop_bit 96 (md5 L (str_number (row_pg_id row)))) in
       latitude c = Some (real (h mod 13000) / 100 - 60) \<and>
       longitude c = Some (real (h div 13000 mod 36000) / 100 - 180) \<and>
       - 60 \<le> real (h mod 13000) / 100 - 60 \<and> real (h mod 13000) / 100 - 60 < 70 \<and>
       - 180 \<le> real (h div 13000 mod 36000) / 100 - 180 \<and>
       real (h div 13000 mod 36000) / 100 - 180 < 180)"
proof -
  from assms(1,2) obtain row cf g1 g2 where
    row: "row \<in> set (pgm_data ds)" and
    cf: "coordinate_frame L (build_coord_lookup (get_coordinates ds grid_ids)) row = Inr cf" and
    cell: "create_grid_cell_data L row (hdi_rows_for (get_hdi_data ds grid_ids month_ids) row) cf
       (build_country_map (get_available_countries ds)) metrics g1 = (Inr c, g2)"
    by (rule get_enriched_forecasts_cells)
  note fields = created_fields [OF cell]
  define h where "h = unat (drop_bit 96 (md5 L (str_number (row_pg_id row))))"
  have "build_coord_lookup (get_coordinates ds grid_ids) (pgm_pg_id row) = None"
    using assms(3) get_coordinates_subset [of ds grid_ids]
    by (auto simp: build_coord_lookup_None fields(1))
  with cf have cf': "cf = [\<lparr>ts_priogrid_id = pgm_pg_id row, ts_lat = None,
      ts_latitude = Some (real (h mod 13000) / 100 - 60), ts_lon = None,
      ts_longitude = Some (real (h div 13000 mod 36000) / 100 - 180),
      ts_country_id = pgm_country_id row\<rparr>]"
    by (simp add: coordinate_frame_def generate_coordinates_eq generate_coordinates_for_grid_eq
        h_def Let_def)
  have ex: "extract_coordinates cf (pgm_pg_id row) =
      (Some (real (h mod 13000) / 100 - 60), Some (real (h div 13000 mod 36000) / 100 - 180),
       pgm_country_id row)"
    by (simp add: cf' extract_coordinates_def py_or_def)
  have lat: "latitude c = Some (real (h mod 13000) / 100 - 60)"
    and lon: "longitude c = Some (real (h div 13000 mod 36000) / 100 - 180)"
    by (simp_all add: fields(4,5) ex resolve_coordinates_def)
  show ?thesis
    using row lat lon latitude_range [of h] longitude_range [of h]
    by (intro bexI [of _ row]) (simp_all add: fields(1) Let_def h_def [symmetric])
qed

subsection \<open>The example data, evaluated\<close>

lemma unit_draws_sample_libs: "unit_draws sample_libs"
  by (simp add: unit_draws_def sample_libs_def mt19937_5000_def case_prod_beta)

lemma seed_001: "seed_of_base_prob sample_libs (1 / 100) = 100"
  "seed_of_base_prob sample_libs (1 / 50) = 200"
  "seed_of_base_prob sample_libs (3 / 100) = 300" "seed_of_base_prob sample_libs (1 / 2) = 5000"
  by (simp_all add: seed_of_base_prob_def int_of_float_def sample_libs_def)

lemma sample_synthetic:
  assumes "seed_of_base_prob sample_libs p \<noteq> 5000"
  shows "generate_synthetic_metrics sample_libs p g =
     (\<lparr>syn_hdi_50_lower = max 0 (p - 0.003), syn_hdi_50_upper = min 1 (p + 0.003),
       syn_hdi_99_lower = max 0 (p - 0.02), syn_hdi_99_upper = min 1 (p + 0.02),
       syn_threshold_2 = max 0 (p - 0.0055), syn_threshold_3 = max 0 (p - 0.015),
       syn_threshold_4 = max 0 (p - 0.03), syn_threshold_5 = max 0 (p - 0.045),
       syn_threshold_6 = max 0 (p - 0.065)\<rparr>, (seed_of_base_prob sample_libs p, 9))"
proof -
  have draw: "random_sample sample_libs (seed_of_base_prob sample_libs p, i) =
      (1 / 2, (seed_of_base_prob sample_libs p, Suc i))" for i
    using assms by (simp add: sample_libs_def)
  have seed: "random_seed sample_libs n = (n, 0)" for n
    by (simp add: sample_libs_def)
  show ?thesis
    by (simp add: generate_synthetic_metrics_def uniform_def seed draw Let_def eval_nat_numeral)
qed

lemma str_62358: "str 62358 = ''62358''" "str 999999 = ''999999''" "str 62356 = ''62356''"
  by (simp_all add: str_def str_nat.simps digit_char_def)

lemma sample_coordinates:
  "generate_coordinates_for_grid sample_libs (AsFloat 62358) = Inr (- (1128 / 25), 12927 / 100)"
  "generate_coordinates_for_grid sample_libs (AsInt 62358) = Inr (2039 / 100, - (645 / 4))"
  "generate_coordinates_for_grid sample_libs (AsInt 999999) = Inr (2173 / 50, 8413 / 50)"
  by (simp_all add: generate_coordinates_for_grid_eq str_62358 sample_libs_def)

lemma sample_run:
  assumes "month_filter mids 548"
  shows "get_enriched_forecasts sample_libs sample_store [62356, 62357, 62358] mids sample_metrics g =
    (Inr sample_cells, (300, 9))"
  using assms
  by (simp add: get_enriched_forecasts_def get_grid_data_def sample_store_def sample_row_def
  get_hdi_data_def get_coordinates_def build_country_map_def get_available_countries_def
  drop_duplicates_def build_coord_lookup_def coordinate_frame_def hdi_rows_for_def
  create_grid_cell_data_def extract_coordinates_def py_or_def resolve_coordinates_def
  extract_hdi_values_def base_prob_of_def sample_synthetic seed_001 GridCellData_init_def
  validate_latitude_def validate_longitude_def generate_coordinates_eq sample_coordinates Let_def
    sample_metrics_def sample_cells_def default_cell_def bare_cell_def row_pg_id_def)

lemma sample_create:
  "create_grid_cell_data sample_libs (sample_row 62356 548 0.001 0.01) (hdi_data sample_store)
     (timeseries_data sample_store) [1 \<mapsto> ''Testland''] sample_metrics g =
   (Inr (default_cell 62356 45 12 0.001 0.01 (Some 0.005) (Some 0.015) 0.0045 0), (100, 9))"
  "create_grid_cell_data sample_libs (sample_row 62356 548 0.001 0.01) (hdi_data sample_store)
     (timeseries_data sample_store) [1 \<mapsto> ''Testland''] no_metrics g =
   (Inr (bare_cell 62356 45 12), (100, 9))"
  by (simp_all add: sample_store_def sample_row_def
  create_grid_cell_data_def extract_coordinates_def py_or_def resolve_coordinates_def
  extract_hdi_values_def base_prob_of_def sample_synthetic seed_001 GridCellData_init_def
  validate_latitude_def validate_longitude_def Let_def
    sample_metrics_def no_metrics_def default_cell_def bare_cell_def row_pg_id_def)

lemma sample_run_bare:
  "get_enriched_forecasts sample_libs sample_store [62356] (Some [548]) no_metrics g =
    (Inr [bare_cell 62356 45 12], (100, 9))"
  by (simp add: get_enriched_forecasts_def get_grid_data_def sample_store_def sample_row_def
  get_hdi_data_def get_coordinates_def build_country_map_def get_available_countries_def
  drop_duplicates_def build_coord_lookup_def coordinate_frame_def hdi_rows_for_def month_filter_def
  create_grid_cell_data_def extract_coordinates_def py_or_def resolve_coordinates_def
  extract_hdi_values_def base_prob_of_def sample_synthetic seed_001 GridCellData_init_def
  validate_latitude_def validate_longitude_def Let_def
    no_metrics_def bare_cell_def row_pg_id_def)

lemma sample_synthetic_5000:
  "fst (generate_synthetic_metrics sample_libs (1 / 2) g) =
     \<lparr>syn_hdi_50_lower = 1121585027267769833 / 2251799813685248000,
    syn_hdi_50_upper = 565700165519162873 / 1125899906842624000,
    syn_hdi_99_lower = 21412226620048897 / 45035996273704960,
    syn_hdi_99_upper = 115349201181302073 / 225179981368524800,
    syn_threshold_2 = 1111330906499717357 / 2251799813685248000,
    syn_threshold_3 = 217002572769091167 / 450359962737049600,
    syn_threshold_4 = 207334293262109311 / 450359962737049600,
    syn_threshold_5 = 210807938755543289 / 450359962737049600,
    syn_threshold_6 = 191853887957788707 / 450359962737049600\<rparr>"
proof -
  have draw: "random_sample sample_libs (5000, i) = (mt19937_5000 i, (5000, Suc i))" for i
    by (simp add: sample_libs_def)
  have seed: "random_seed sample_libs n = (n, 0)" for n
    by (simp add: sample_libs_def)
  show ?thesis
    by (simp add: generate_synthetic_metrics_def uniform_def seed draw Let_def seed_001
        mt19937_5000_def)
qed

section \<open>The claims\<close>

subsection \<open>C1: calendar fields\<close>

text \<open>
  C1 states that month 548 is August 2025: a record with \<open>month_id = 548\<close> has year
  2025 and month 8, the month of the year being \<open>((m - 548 + 7) mod 12) + 1\<close>. The
  source computes \<open>((m - 548) mod 12) + 1\<close> (lemma \<open>calendar_of_created_record\<close>),
  although its own comment reads ``month 548 = 2025-08''. Evaluated on the example data,
  every record of month 548 has month 1, and \<open>get_basic_info\<close> reports the date range
  from 2025-01 to 2025-01.
\<close>

theorem month_id_548_maps_to_month_1:
  "map_sum id (map month_id)
     (fst (get_enriched_forecasts sample_libs sample_store [62356, 62357, 62358] (Some [548])
        sample_metrics (0, 0))) = Inr [548, 548, 548] \<and>
   map_sum id (map year)
     (fst (get_enriched_forecasts sample_libs sample_store [62356, 62357, 62358] (Some [548])
        sample_metrics (0, 0))) = Inr [Some 2025, Some 2025, Some 2025] \<and>
   map_sum id (map month)
     (fst (get_enriched_forecasts sample_libs sample_store [62356, 62357, 62358] (Some [548])
        sample_metrics (0, 0))) = Inr [Some 1, Some 1, Some 1] \<and>
   date_range (get_basic_info sample_store) = Some (''2025-01'', ''2025-01'')"
proof -
  have m: "month_filter (Some [548]) 548"
    by (simp add: month_filter_def)
  have "date_range (get_basic_info sample_store) = Some (''2025-01'', ''2025-01'')"
    by (simp add: get_basic_info_def get_available_months_def sample_store_def sample_row_def
        Let_def format_02d_def str_def str_nat.simps digit_char_def)
  then show ?thesis
    by (simp add: sample_run [OF m] sample_cells_def default_cell_def bare_cell_def)
qed

subsection \<open>C2: the threshold slots\<close>

text \<open>
  C2 states that for an estimate \<open>p\<close> between 0 and 1 the synthesized slots lie below
  \<open>p\<close> and decrease from slot to slot. The offset ranges of slots 4, 5 and 6 overlap
  (0.02 to 0.04, 0.03 to 0.06, 0.05 to 0.08), so a later slot can get the smaller offset.
  Counterexample to C2: for \<open>p = 1/2\<close>, with the draws MT19937 yields after seed
  5000, slot 5 is above slot 4.
\<close>

theorem threshold_5_above_threshold_4:
  "(0::real) \<le> 1 / 2 \<and> (1 / 2 :: real) \<le> 1 \<and> unit_draws sample_libs \<and>
   syn_threshold_4 (fst (generate_synthetic_metrics sample_libs (1 / 2) (0, 0))) <
   syn_threshold_5 (fst (generate_synthetic_metrics sample_libs (1 / 2) (0, 0)))"
  by (simp add: sample_synthetic_5000 unit_draws_sample_libs)

text \<open>
  C2 as amended: for \<open>p\<close> between 0 and 1 and draws of the unit interval, each of the
  slots 2 to 6 is at most \<open>p\<close>, and below \<open>p\<close> unless it is clamped to 0; slot 1
  (which is \<open>p\<close> itself, lemma \<open>created_fields\<close>) is at least slot 2, slot 2 at least
  slot 3, slot 3 at least slots 4 and 5, and slot 4 at least slot 6. Nothing orders slot 4
  against slot 5, or slot 5 against slot 6.
\<close>

theorem thresholds_ordered_by_ranges:
  assumes "unit_draws L" and "0 \<le> p" and "p \<le> 1"
  shows "let s = fst (generate_synthetic_metrics L p g) in
       syn_threshold_2 s \<le> p \<and> (syn_threshold_2 s < p \<or> syn_threshold_2 s = 0) \<and>
       syn_threshold_3 s \<le> p \<and> (syn_threshold_3 s < p \<or> syn_threshold_3 s = 0) \<and>
       syn_threshold_4 s \<le> p \<and> (syn_threshold_4 s < p \<or> syn_threshold_4 s = 0) \<and>
       syn_threshold_5 s \<le> p \<and> (syn_threshold_5 s < p \<or> syn_threshold_5 s = 0) \<and>
       syn_threshold_6 s \<le> p \<and> (syn_threshold_6 s < p \<or> syn_threshold_6 s = 0) \<and>
       syn_threshold_3 s \<le> syn_threshold_2 s \<and>
       syn_threshold_4 s \<le> syn_threshold_3 s \<and>
       syn_threshold_5 s \<le> syn_threshold_3 s \<and>
       syn_threshold_6 s \<le> syn_threshold_4 s"
proof -
  from assms(1) obtain d1 d2 d3 d4 d5 d6 d7 d8 d9 where
    eq: "fst (generate_synthetic_metrics L p g) =
       \<lparr>syn_hdi_50_lower = max 0 (p - d1), syn_hdi_50_upper = min 1 (p + d2),
        syn_hdi_99_lower = max 0 (p - d3), syn_hdi_99_upper = min 1 (p + d4),
        syn_threshold_2 = max 0 (p - d5), syn_threshold_3 = max 0 (p - d6),
        syn_threshold_4 = max 0 (p - d7), syn_threshold_5 = max 0 (p - d8),
        syn_threshold_6 = max 0 (p - d9)\<rparr>" and
    d: "0.001 \<le> d5 \<and> d5 < 0.01" "0.01 \<le> d6 \<and> d6 < 0.02" "0.02 \<le> d7 \<and> d7 < 0.04"
       "0.03 \<le> d8 \<and> d8 < 0.06" "0.05 \<le> d9 \<and> d9 < 0.08"
    by (rule synthetic_metrics_draws [of L p g]) blast
  show ?thesis
    unfolding Let_def eq synthetic_metrics.simps
    using d assms(2) by (intro conjI) (simp_all add: max_def)
qed

text \<open>Witness for C2 as amended, at \<open>p = 1/2\<close> and the example generator.\<close>

theorem thresholds_ordered_by_ranges_witness:
  "unit_draws sample_libs \<and> (0::real) \<le> 1 / 2 \<and> (1 / 2 :: real) \<le> 1 \<and>
   (let s = fst (generate_synthetic_metrics sample_libs (1 / 2) (0, 0)) in
       syn_threshold_2 s \<le> 1 / 2 \<and> (syn_threshold_2 s < 1 / 2 \<or> syn_threshold_2 s = 0) \<and>
       syn_threshold_3 s \<le> 1 / 2 \<and> (syn_threshold_3 s < 1 / 2 \<or> syn_threshold_3 s = 0) \<and>
       syn_threshold_4 s \<le> 1 / 2 \<and> (syn_threshold_4 s < 1 / 2 \<or> syn_threshold_4 s = 0) \<and>
       syn_threshold_5 s \<le> 1 / 2 \<and> (syn_threshold_5 s < 1 / 2 \<or> syn_threshold_5 s = 0) \<and>
       syn_threshold_6 s \<le> 1 / 2 \<and> (syn_threshold_6 s < 1 / 2 \<or> syn_threshold_6 s = 0) \<and>
       syn_threshold_3 s \<le> syn_threshold_2 s \<and>
       syn_threshold_4 s \<le> syn_threshold_3 s \<and>
       syn_threshold_5 s \<le> syn_threshold_3 s \<and>
       syn_threshold_6 s \<le> syn_threshold_4 s)"
proof -
  have a: "(0::real) \<le> 1 / 2" and b: "(1 / 2 :: real) \<le> 1"
    by simp_all
  from thresholds_ordered_by_ranges [OF unit_draws_sample_libs a b, of "(0, 0)"]
    unit_draws_sample_libs a b
  show ?thesis by blast
qed

subsection \<open>C3: the 90% band\<close>

text \<open>
  C3 states that whenever an uncertainty record exists for the key of an enriched record,
  the 90% bounds of the enriched record are the bounds of that record. The projection
  nulls them when the 90% band is not selected. Counterexample to C3: the example store
  has the interval record of cell 62356 in month 548, and under the selection with every
  flag off the enriched record of that key has null 90% bounds.
\<close>

theorem primary_band_null_when_unselected:
  "\<lparr>hdi_priogrid_id = 62356, hdi_month_id = 548, pred_ln_sb_prob_hdi_lower = Some 0.005,
     pred_ln_sb_prob_hdi_upper = Some 0.015\<rparr> \<in> set (hdi_data sample_store) \<and>
   get_enriched_forecasts sample_libs sample_store [62356] (Some [548]) no_metrics (0, 0) =
     (Inr [bare_cell 62356 45 12], (100, 9)) \<and>
   grid_id (bare_cell 62356 45 12) = 62356 \<and> month_id (bare_cell 62356 45 12) = 548 \<and>
   hdi_90_lower (bare_cell 62356 45 12) = None \<and> hdi_90_upper (bare_cell 62356 45 12) = None"
  by (simp add: sample_run_bare) (simp add: sample_store_def bare_cell_def)

text \<open>
  C3 as amended: for every record of a successful run, if no uncertainty record has its
  (grid_id, month_id) the 90% bounds are null; otherwise, when the 90% band is selected
  they are the bounds of the first such record in source order, as they stand, and when
  it is not selected they are null. They are never synthesized.
\<close>

theorem primary_band_first_record_or_null:
  assumes "get_enriched_forecasts L ds grid_ids month_ids metrics g = (Inr cells, g')"
    and "c \<in> set cells"
  shows "case find (\<lambda>h. hdi_priogrid_id h = grid_id c \<and> hdi_month_id h = month_id c) (hdi_data ds) of
           None \<Rightarrow> hdi_90_lower c = None \<and> hdi_90_upper c = None
         | Some h \<Rightarrow>
             if include_hdi_90 metrics
             then hdi_90_lower c = pred_ln_sb_prob_hdi_lower h \<and>
                  hdi_90_upper c = pred_ln_sb_prob_hdi_upper h
             else hdi_90_lower c = None \<and> hdi_90_upper c = None"
proof -
  from assms obtain row cf g1 g2 where
    sel: "pgm_pg_id row \<in> set grid_ids" "month_filter month_ids (pgm_month_id row)" and
    cell: "create_grid_cell_data L row (hdi_rows_for (get_hdi_data ds grid_ids month_ids) row) cf
       (build_country_map (get_available_countries ds)) metrics g1 = (Inr c, g2)"
    by (rule get_enriched_forecasts_cells)
  note fields = created_fields [OF cell]
  show ?thesis
    unfolding fields(1,2,11,12) extract_hdi_values_store [OF sel]
    by (simp split: option.splits)
qed

text \<open>
  Witness for C3 as amended: the example run under the default selection, at the record
  of cell 62356 (an interval record exists) and at the record of cell 62358 (none exists).
\<close>

theorem primary_band_first_record_or_null_witness:
  "get_enriched_forecasts sample_libs sample_store [62356, 62357, 62358] (Some [548])
     sample_metrics (0, 0) = (Inr sample_cells, (300, 9)) \<and>
   sample_cells ! 0 \<in> set sample_cells \<and> sample_cells ! 2 \<in> set sample_cells \<and>
   (case find (\<lambda>h. hdi_priogrid_id h = grid_id (sample_cells ! 0) \<and>
                    hdi_month_id h = month_id (sample_cells ! 0)) (hdi_data sample_store) of
      None \<Rightarrow> hdi_90_lower (sample_cells ! 0) = None \<and> hdi_90_upper (sample_cells ! 0) = None
    | Some h \<Rightarrow>
        if include_hdi_90 sample_metrics
        then hdi_90_lower (sample_cells ! 0) = pred_ln_sb_prob_hdi_lower h \<and>
             hdi_90_upper (sample_cells ! 0) = pred_ln_sb_prob_hdi_upper h
        else hdi_90_lower (sample_cells ! 0) = None \<and> hdi_90_upper (sample_cells ! 0) = None) \<and>
   (case find (\<lambda>h. hdi_priogrid_id h = grid_id (sample_cells ! 2) \<and>
                    hdi_month_id h = month_id (sample_cells ! 2)) (hdi_data sample_store) of
      None \<Rightarrow> hdi_90_lower (sample_cells ! 2) = None \<and> hdi_90_upper (sample_cells ! 2) = None
    | Some h \<Rightarrow>
        if include_hdi_90 sample_metrics
        then hdi_90_lower (sample_cells ! 2) = pred_ln_sb_prob_hdi_lower h \<and>
             hdi_90_upper (sample_cells ! 2) = pred_ln_sb_prob_hdi_upper h
        else hdi_90_lower (sample_cells ! 2) = None \<and> hdi_90_upper (sample_cells ! 2) = None) \<and>
   hdi_90_lower (sample_cells ! 0) = Some 0.005 \<and> hdi_90_upper (sample_cells ! 0) = Some 0.015 \<and>
   hdi_90_lower (sample_cells ! 2) = None \<and> hdi_90_upper (sample_cells ! 2) = None"
proof -
  have run: "get_enriched_forecasts sample_libs sample_store [62356, 62357, 62358] (Some [548])
     sample_metrics (0, 0) = (Inr sample_cells, (300, 9))"
    by (simp add: sample_run month_filter_def)
  have mem: "sample_cells ! 0 \<in> set sample_cells" "sample_cells ! 2 \<in> set sample_cells"
    by (simp_all add: sample_cells_def)
  have vals: "hdi_90_lower (sample_cells ! 0) = Some 0.005"
    "hdi_90_upper (sample_cells ! 0) = Some 0.015"
    "hdi_90_lower (sample_cells ! 2) = None" "hdi_90_upper (sample_cells ! 2) = None"
    by (simp_all add: sample_cells_def default_cell_def bare_cell_def)
  from primary_band_first_record_or_null [OF run mem(1)]
    primary_band_first_record_or_null [OF run mem(2)] run mem vals
  show ?thesis by blast
qed

subsection \<open>C4: unknown conflict-type tags\<close>




subsection \<open>C5: clamping of the synthesized bounds\<close>

text \<open>
  C5: for every point estimate \<open>p\<close> (a probability, between 0 and 1) and draws of the
  unit interval, every synthesized bound and every synthetic threshold slot lies between
  0 and 1, and in each synthesized pair the lower bound is at most the upper bound: the
  lower bound is at most \<open>p\<close> and the upper bound at least \<open>p\<close>, so that clamping
  never leaves a pair with its lower bound above its upper bound.
\<close>

theorem synthetic_bounds_clamped:
  assumes "unit_draws L" and "0 \<le> p" and "p \<le> 1"
  shows "let s = fst (generate_synthetic_metrics L p g) in
       0 \<le> syn_hdi_50_lower s \<and> syn_hdi_50_lower s \<le> 1 \<and>
       0 \<le> syn_hdi_50_upper s \<and> syn_hdi_50_upper s \<le> 1 \<and>
       0 \<le> syn_hdi_99_lower s \<and> syn_hdi_99_lower s \<le> 1 \<and>
       0 \<le> syn_hdi_99_upper s \<and> syn_hdi_99_upper s \<le> 1 \<and>
       0 \<le> syn_threshold_2 s \<and> syn_threshold_2 s \<le> 1 \<and>
       0 \<le> syn_threshold_3 s \<and> syn_threshold_3 s \<le> 1 \<and>
       0 \<le> syn_threshold_4 s \<and> syn_threshold_4 s \<le> 1 \<and>
       0 \<le> syn_threshold_5 s \<and> syn_threshold_5 s \<le> 1 \<and>
       0 \<le> syn_threshold_6 s \<and> syn_threshold_6 s \<le> 1 \<and>
       syn_hdi_50_lower s \<le> p \<and> p \<le> syn_hdi_50_upper s \<and>
       syn_hdi_99_lower s \<le> p \<and> p \<le> syn_hdi_99_upper s \<and>
       syn_hdi_50_lower s \<le> syn_hdi_50_upper s \<and>
       syn_hdi_99_lower s \<le> syn_hdi_99_upper s"
proof -
  from assms(1) obtain d1 d2 d3 d4 d5 d6 d7 d8 d9 where
    eq: "fst (generate_synthetic_metrics L p g) =
       \<lparr>syn_hdi_50_lower = max 0 (p - d1), syn_hdi_50_upper = min 1 (p + d2),
        syn_hdi_99_lower = max 0 (p - d3), syn_hdi_99_upper = min 1 (p + d4),
        syn_threshold_2 = max 0 (p - d5), syn_threshold_3 = max 0 (p - d6),
        syn_threshold_4 = max 0 (p - d7), syn_threshold_5 = max 0 (p - d8),
        syn_threshold_6 = max 0 (p - d9)\<rparr>" and
    d: "0.001 \<le> d1 \<and> d1 < 0.005" "0.001 \<le> d2 \<and> d2 < 0.005"
       "0.01 \<le> d3 \<and> d3 < 0.03" "0.01 \<le> d4 \<and> d4 < 0.03"
       "0.001 \<le> d5 \<and> d5 < 0.01" "0.01 \<le> d6 \<and> d6 < 0.02" "0.02 \<le> d7 \<and> d7 < 0.04"
       "0.03 \<le> d8 \<and> d8 < 0.06" "0.05 \<le> d9 \<and> d9 < 0.08"
    by (rule synthetic_metrics_draws [of L p g])
  show ?thesis
    unfolding Let_def eq synthetic_metrics.simps
    using d assms(2,3) by (intro conjI) (simp_all add: max_def min_def)
qed

text \<open>
  Witness for C5, at \<open>p = 0.999\<close> and the example generator: the upper bounds are
  clamped to 1 there.
\<close>

theorem synthetic_bounds_clamped_witness:
  "unit_draws sample_libs \<and> (0::real) \<le> 0.999 \<and> (0.999::real) \<le> 1 \<and>
   (let s = fst (generate_synthetic_metrics sample_libs 0.999 (0, 0)) in
       0 \<le> syn_hdi_50_lower s \<and> syn_hdi_50_lower s \<le> 1 \<and>
       0 \<le> syn_hdi_50_upper s \<and> syn_hdi_50_upper s \<le> 1 \<and>
       0 \<le> syn_hdi_99_lower s \<and> syn_hdi_99_lower s \<le> 1 \<and>
       0 \<le> syn_hdi_99_upper s \<and> syn_hdi_99_upper s \<le> 1 \<and>
       0 \<le> syn_threshold_2 s \<and> syn_threshold_2 s \<le> 1 \<and>
       0 \<le> syn_threshold_3 s \<and> syn_threshold_3 s \<le> 1 \<and>
       0 \<le> syn_threshold_4 s \<and> syn_threshold_4 s \<le> 1 \<and>
       0 \<le> syn_threshold_5 s \<and> syn_threshold_5 s \<le> 1 \<and>
       0 \<le> syn_threshold_6 s \<and> syn_threshold_6 s \<le> 1 \<and>
       syn_hdi_50_lower s \<le> 0.999 \<and> 0.999 \<le> syn_hdi_50_upper s \<and>
       syn_hdi_99_lower s \<le> 0.999 \<and> 0.999 \<le> syn_hdi_99_upper s \<and>
       syn_hdi_50_lower s \<le> syn_hdi_50_upper s \<and>
       syn_hdi_99_lower s \<le> syn_hdi_99_upper s) \<and>
   syn_hdi_50_upper (fst (generate_synthetic_metrics sample_libs 0.999 (0, 0))) = 1 \<and>
   syn_hdi_99_upper (fst (generate_synthetic_metrics sample_libs 0.999 (0, 0))) = 1"
proof -
  have a: "(0::real) \<le> 0.999" and b: "(0.999::real) \<le> 1"
    by simp_all
  have "seed_of_base_prob sample_libs 0.999 \<noteq> 5000"
    by (simp add: seed_of_base_prob_def int_of_float_def sample_libs_def)
  then have clamped:
    "syn_hdi_50_upper (fst (generate_synthetic_metrics sample_libs 0.999 (0, 0))) = 1"
    "syn_hdi_99_upper (fst (generate_synthetic_metrics sample_libs 0.999 (0, 0))) = 1"
    by (simp_all add: sample_synthetic)
  from synthetic_bounds_clamped [OF unit_draws_sample_libs a b, of "(0, 0)"]
    unit_draws_sample_libs a b clamped
  show ?thesis by blast
qed

subsection \<open>C6: determinism\<close>

text \<open>
  C6: the synthetic-metrics generator reseeds the global generator before it draws, so
  two calls for the same estimate return the same values (and leave the same state) from
  whatever state each of them finds. The seed is the integer part of the product of the
  doubles \<open>p\<close> and 10000, modulo \<open>2^32\<close>, which is the floor of that product when
  it is not negative: the result depends on the seeding only through the state installed
  for that seed. The coordinate fallback reads no state at all: it is a function of the
  grid id it is given, its two copies in the source agree, and it always returns.
\<close>

theorem generators_deterministic:
  "generate_synthetic_metrics L p g1 = generate_synthetic_metrics L p g2 \<and>
   (0 \<le> float_mul L p 10000 \<and> float_mul L' = float_mul L \<and>
    random_sample L' = random_sample L \<and>
    random_seed L' (nat (\<lfloor>float_mul L p 10000\<rfloor> mod 2 ^ 32)) =
      random_seed L (nat (\<lfloor>float_mul L p 10000\<rfloor> mod 2 ^ 32))
      \<longrightarrow> generate_synthetic_metrics L' p g1 = generate_synthetic_metrics L p g2) \<and>
   generate_coordinates L gid = generate_coordinates_for_grid L gid \<and>
   \<not> isl (generate_coordinates_for_grid L gid)"
proof -
  have "generate_synthetic_metrics L' p g1 = generate_synthetic_metrics L p g2"
    if "0 \<le> float_mul L p 10000" and f: "float_mul L' = float_mul L"
      and "random_sample L' = random_sample L"
      and "random_seed L' (nat (\<lfloor>float_mul L p 10000\<rfloor> mod 2 ^ 32)) =
        random_seed L (nat (\<lfloor>float_mul L p 10000\<rfloor> mod 2 ^ 32))"
  proof (rule synthetic_metrics_seed_only)
    show "random_sample L' = random_sample L" by (fact that(3))
    have "seed_of_base_prob L' p = seed_of_base_prob L p"
      by (simp add: seed_of_base_prob_def f)
    with that(1,4) show "random_seed L' (seed_of_base_prob L' p) =
        random_seed L (seed_of_base_prob L p)"
      by (simp add: seed_of_base_prob_floor)
  qed
  then show ?thesis
    using synthetic_metrics_state_independent [of L p g1 g2]
    by (simp add: generate_coordinates_eq generate_coordinates_for_grid_eq)
qed

text \<open>
  Witness for C6: at \<open>p = 1/2\<close>, the example library and a library that installs
  another state for every seed but 5000 give the same metrics.
\<close>

theorem generators_deterministic_witness:
  "(0::real) \<le> float_mul sample_libs (1 / 2) 10000 \<and>
   float_mul (sample_libs\<lparr>random_seed := (\<lambda>n. if n = 5000 then (5000, 0) else (7, 7))\<rparr>) =
     float_mul sample_libs \<and>
   random_sample (sample_libs\<lparr>random_seed := (\<lambda>n. if n = 5000 then (5000, 0) else (7, 7))\<rparr>) =
     random_sample sample_libs \<and>
   random_seed (sample_libs\<lparr>random_seed := (\<lambda>n. if n = 5000 then (5000, 0) else (7, 7))\<rparr>)
       (nat (\<lfloor>float_mul sample_libs (1 / 2) 10000\<rfloor> mod 2 ^ 32)) =
     random_seed sample_libs (nat (\<lfloor>float_mul sample_libs (1 / 2) 10000\<rfloor> mod 2 ^ 32)) \<and>
   nat (\<lfloor>float_mul sample_libs (1 / 2) 10000\<rfloor> mod 2 ^ 32) = 5000 \<and>
   generate_synthetic_metrics
       (sample_libs\<lparr>random_seed := (\<lambda>n. if n = 5000 then (5000, 0) else (7, 7))\<rparr>) (1 / 2) (3, 4) =
     generate_synthetic_metrics sample_libs (1 / 2) (0, 0)"
proof -
  have a: "(0::real) \<le> float_mul sample_libs (1 / 2) 10000"
    by (simp add: sample_libs_def)
  have f: "float_mul (sample_libs\<lparr>random_seed := (\<lambda>n. if n = 5000 then (5000, 0) else (7, 7))\<rparr>) =
     float_mul sample_libs"
    by simp
  have b: "random_sample (sample_libs\<lparr>random_seed := (\<lambda>n. if n = 5000 then (5000, 0) else (7, 7))\<rparr>) =
     random_sample sample_libs"
    by simp
  have s: "nat (\<lfloor>float_mul sample_libs (1 / 2) 10000\<rfloor> mod 2 ^ 32) = 5000"
    by (simp add: sample_libs_def)
  have c: "random_seed (sample_libs\<lparr>random_seed := (\<lambda>n. if n = 5000 then (5000, 0) else (7, 7))\<rparr>)
       (nat (\<lfloor>float_mul sample_libs (1 / 2) 10000\<rfloor> mod 2 ^ 32)) =
     random_seed sample_libs (nat (\<lfloor>float_mul sample_libs (1 / 2) 10000\<rfloor> mod 2 ^ 32))"
    unfolding s by (simp add: sample_libs_def)
  from generators_deterministic [where L = sample_libs and p = "1 / 2" and ?g1.0 = "(3, 4)"
      and ?g2.0 = "(0, 0)"
      and L' = "sample_libs\<lparr>random_seed := (\<lambda>n. if n = 5000 then (5000, 0) else (7, 7))\<rparr>"]
    a f b c s
  show ?thesis by blast
qed

subsection \<open>C7: the synthetic coordinate\<close>

text \<open>
  C7 states that the coordinate of a grid id without a coordinate row is computed from
  the MD5 digest of the decimal string of the grid id. The fallback does so when it is
  given an integer, as its signature asks (\<^verbatim>\<open>grid_id: int\<close>); lemma
  \<open>fallback_coordinate_of_run\<close> gives the formula and the ranges for whatever string is
  hashed. But the orchestrator hands it \<^verbatim>\<open>row['pg_id']\<close> as the row Series holds it,
  and on a frame of numbers with a float column that is a float: the string hashed is the
  decimal string followed by \<open>.0\<close>. Evaluated on the example data: the record of cell
  62358 gets the coordinate of the string \<open>62358.0\<close>, (-45.12, 129.27), while the
  fallback on the integer 62358 gives (20.39, -161.25).
\<close>

theorem orchestrator_hashes_float_form_of_grid_id:
  "get_enriched_forecasts sample_libs sample_store [62356, 62357, 62358] (Some [548])
     sample_metrics (0, 0) = (Inr sample_cells, (300, 9)) \<and>
   grid_id (sample_cells ! 2) = 62358 \<and>
   62358 \<notin> ts_priogrid_id ` set (timeseries_data sample_store) \<and>
   latitude (sample_cells ! 2) = Some (- 45.12) \<and>
   longitude (sample_cells ! 2) = Some 129.27 \<and>
   str_number (row_pg_id (sample_row 62358 548 0.003 0.03)) = ''62358.0'' \<and>
   generate_coordinates_for_grid sample_libs (row_pg_id (sample_row 62358 548 0.003 0.03)) =
     Inr (- 45.12, 129.27) \<and>
   str_number (AsInt 62358) = ''62358'' \<and>
   generate_coordinates_for_grid sample_libs (AsInt 62358) = Inr (20.39, - 161.25)"
proof -
  have run: "get_enriched_forecasts sample_libs sample_store [62356, 62357, 62358] (Some [548])
     sample_metrics (0, 0) = (Inr sample_cells, (300, 9))"
    by (simp add: sample_run month_filter_def)
  have cell: "grid_id (sample_cells ! 2) = 62358" "latitude (sample_cells ! 2) = Some (- 45.12)"
    "longitude (sample_cells ! 2) = Some 129.27"
    by (simp_all add: sample_cells_def default_cell_def bare_cell_def)
  have absent: "62358 \<notin> ts_priogrid_id ` set (timeseries_data sample_store)"
    by (simp add: sample_store_def)
  have held: "row_pg_id (sample_row 62358 548 0.003 0.03) = AsFloat 62358"
    by (simp add: row_pg_id_def sample_row_def)
  have strs: "str_number (AsFloat 62358) = ''62358.0''" "str_number (AsInt 62358) = ''62358''"
    by (simp_all add: str_62358)
  have gen: "generate_coordinates_for_grid sample_libs (AsFloat 62358) = Inr (- 45.12, 129.27)"
    "generate_coordinates_for_grid sample_libs (AsInt 62358) = Inr (20.39, - 161.25)"
    by (simp_all add: sample_coordinates)
  show ?thesis
    unfolding held using run cell absent strs gen by blast
qed

subsection \<open>C8: a query that selects no primary row\<close>

text \<open>
  C8 states that a query whose grid ids and month range match no row of the primary
  source fails with a not-found error. \<open>get_grid_data\<close> does raise when its selection
  is empty (lemma \<open>get_enriched_forecasts_no_rows\<close>), and a successful run is never
  empty (lemma \<open>get_enriched_forecasts_nonempty\<close>); but a month range that contains no
  available month becomes the empty list of months, which \<^verbatim>\<open>if month_ids:\<close> takes for
  ``no month filter''. Evaluated on the example data: the months 9000 to 9001 match no
  row (the only month is 548), and the query returns the three records of month 548.
\<close>

theorem empty_month_range_returns_all_months:
  "get_available_months sample_store = [548] \<and>
   get_forecasts_by_grid sample_libs sample_store [62356, 62357, 62358] (Some 9000) (Some 9001)
     sample_metrics (0, 0) = (Inr sample_cells, (300, 9)) \<and>
   map month_id sample_cells = [548, 548, 548]"
proof -
  have months: "get_available_months sample_store = [548]"
    by (simp add: get_available_months_def sample_store_def sample_row_def)
  have cells: "map month_id sample_cells = [548, 548, 548]"
    by (simp add: sample_cells_def default_cell_def bare_cell_def)
  have "get_forecasts_by_grid sample_libs sample_store [62356, 62357, 62358] (Some 9000) (Some 9001)
     sample_metrics (0, 0) = (Inr sample_cells, (300, 9))"
    by (simp add: get_forecasts_by_grid_def truthy_def or_default_def months sample_run
        month_filter_def)
  with months cells show ?thesis by simp
qed

subsection \<open>C9: the projection\<close>

text \<open>
  C9: an enriched record is a \<open>GridCellData\<close> whatever the selection, so two
  selections give records with the same fields; for the same candidate the two records
  agree on the identity, location and calendar fields and differ in a metric field only
  by one of them being null. A field is null when the flag of its group is off (the flag
  of the point estimate for \<open>main_mean\<close> and \<open>main_mean_ln\<close>, the flag of the
  thresholds for \<open>main_dich\<close> and the six slots, the flag of a band for its two
  bounds), and the fields of a group depend on the selection through the flag of that
  group only.
\<close>

theorem projection_shape_invariant:
  assumes "create_grid_cell_data L row hf cf cm m1 g1 = (Inr c1, g1')"
    and "create_grid_cell_data L row hf cf cm m2 g2 = (Inr c2, g2')"
  shows "grid_id c1 = grid_id c2 \<and> month_id c1 = month_id c2 \<and> country_id c1 = country_id c2 \<and>
     latitude c1 = latitude c2 \<and> longitude c1 = longitude c2 \<and>
     conflict_type c1 = conflict_type c2 \<and> country_name c1 = country_name c2 \<and>
     year c1 = year c2 \<and> month c1 = month c2 \<and>
     null_or_same (main_mean c1) (main_mean c2) \<and>
     null_or_same (main_mean_ln c1) (main_mean_ln c2) \<and>
     null_or_same (main_dich c1) (main_dich c2) \<and>
     null_or_same (hdi_50_lower c1) (hdi_50_lower c2) \<and>
     null_or_same (hdi_50_upper c1) (hdi_50_upper c2) \<and>
     null_or_same (hdi_90_lower c1) (hdi_90_lower c2) \<and>
     null_or_same (hdi_90_upper c1) (hdi_90_upper c2) \<and>
     null_or_same (hdi_99_lower c1) (hdi_99_lower c2) \<and>
     null_or_same (hdi_99_upper c1) (hdi_99_upper c2) \<and>
     null_or_same (threshold_1 c1) (threshold_1 c2) \<and>
     null_or_same (threshold_2 c1) (threshold_2 c2) \<and>
     null_or_same (threshold_3 c1) (threshold_3 c2) \<and>
     null_or_same (threshold_4 c1) (threshold_4 c2) \<and>
     null_or_same (threshold_5 c1) (threshold_5 c2) \<and>
     null_or_same (threshold_6 c1) (threshold_6 c2) \<and>
     (\<not> include_map m1 \<longrightarrow> main_mean c1 = None \<and> main_mean_ln c1 = None) \<and>
     (\<not> include_thresholds m1 \<longrightarrow>
        main_dich c1 = None \<and> threshold_1 c1 = None \<and> threshold_2 c1 = None \<and>
        threshold_3 c1 = None \<and> threshold_4 c1 = None \<and> threshold_5 c1 = None \<and>
        threshold_6 c1 = None) \<and>
     (\<not> include_hdi_50 m1 \<longrightarrow> hdi_50_lower c1 = None \<and> hdi_50_upper c1 = None) \<and>
     (\<not> include_hdi_90 m1 \<longrightarrow> hdi_90_lower c1 = None \<and> hdi_90_upper c1 = None) \<and>
     (\<not> include_hdi_99 m1 \<longrightarrow> hdi_99_lower c1 = None \<and> hdi_99_upper c1 = None) \<and>
     (include_map m1 = include_map m2 \<longrightarrow>
        main_mean c1 = main_mean c2 \<and> main_mean_ln c1 = main_mean_ln c2) \<and>
     (include_thresholds m1 = include_thresholds m2 \<longrightarrow>
        main_dich c1 = main_dich c2 \<and> threshold_1 c1 = threshold_1 c2 \<and>
        threshold_2 c1 = threshold_2 c2 \<and> threshold_3 c1 = threshold_3 c2 \<and>
        threshold_4 c1 = threshold_4 c2 \<and> threshold_5 c1 = threshold_5 c2 \<and>
        threshold_6 c1 = threshold_6 c2) \<and>
     (include_hdi_50 m1 = include_hdi_50 m2 \<longrightarrow>
        hdi_50_lower c1 = hdi_50_lower c2 \<and> hdi_50_upper c1 = hdi_50_upper c2) \<and>
     (include_hdi_90 m1 = include_hdi_90 m2 \<longrightarrow>
        hdi_90_lower c1 = hdi_90_lower c2 \<and> hdi_90_upper c1 = hdi_90_upper c2) \<and>
     (include_hdi_99 m1 = include_hdi_99 m2 \<longrightarrow>
        hdi_99_lower c1 = hdi_99_lower c2 \<and> hdi_99_upper c1 = hdi_99_upper c2)"
proof -
  note f1 = created_fields [OF assms(1)]
  note f2 = created_fields [OF assms(2)]
  have syn: "fst (generate_synthetic_metrics L (base_prob_of row) g1) =
      fst (generate_synthetic_metrics L (base_prob_of row) g2)"
    by (simp add: synthetic_metrics_state_independent [of L _ g1 g2])
  show ?thesis
    unfolding f1 f2 syn null_or_same_def
    by (intro conjI impI) simp_all
qed

text \<open>
  Witness for C9: the candidate of cell 62356 under the selection with every flag off
  against the default selection (the two records differ by nulls only), and against the
  selection with every flag off that asks for another conflict type (all flags agree).
\<close>

theorem projection_shape_invariant_witness:
  "create_grid_cell_data sample_libs (sample_row 62356 548 0.001 0.01) (hdi_data sample_store)
     (timeseries_data sample_store) [1 \<mapsto> ''Testland''] no_metrics (0, 0) =
     (Inr (bare_cell 62356 45 12), (100, 9)) \<and>
   create_grid_cell_data sample_libs (sample_row 62356 548 0.001 0.01) (hdi_data sample_store)
     (timeseries_data sample_store) [1 \<mapsto> ''Testland''] sample_metrics (0, 0) =
     (Inr (default_cell 62356 45 12 0.001 0.01 (Some 0.005) (Some 0.015) 0.0045 0), (100, 9)) \<and>
   create_grid_cell_data sample_libs (sample_row 62356 548 0.001 0.01) (hdi_data sample_store)
     (timeseries_data sample_store) [1 \<mapsto> ''Testland'']
     (no_metrics\<lparr>conflict_types := [NON_STATE]\<rparr>) (0, 0) =
     (Inr (bare_cell 62356 45 12), (100, 9)) \<and>
   \<not> include_map no_metrics \<and> \<not> include_thresholds no_metrics \<and> \<not> include_hdi_50 no_metrics \<and>
   \<not> include_hdi_90 no_metrics \<and> \<not> include_hdi_99 no_metrics \<and>
   include_map no_metrics = include_map (no_metrics\<lparr>conflict_types := [NON_STATE]\<rparr>) \<and>
   include_thresholds no_metrics = include_thresholds (no_metrics\<lparr>conflict_types := [NON_STATE]\<rparr>) \<and>
   include_hdi_50 no_metrics = include_hdi_50 (no_metrics\<lparr>conflict_types := [NON_STATE]\<rparr>) \<and>
   include_hdi_90 no_metrics = include_hdi_90 (no_metrics\<lparr>conflict_types := [NON_STATE]\<rparr>) \<and>
   include_hdi_99 no_metrics = include_hdi_99 (no_metrics\<lparr>conflict_types := [NON_STATE]\<rparr>) \<and>
   include_hdi_50 no_metrics = include_hdi_50 sample_metrics \<and>
   include_hdi_99 no_metrics = include_hdi_99 sample_metrics \<and>
   grid_id (bare_cell 62356 45 12) =
     grid_id (default_cell 62356 45 12 0.001 0.01 (Some 0.005) (Some 0.015) 0.0045 0) \<and>
   latitude (bare_cell 62356 45 12) =
     latitude (default_cell 62356 45 12 0.001 0.01 (Some 0.005) (Some 0.015) 0.0045 0) \<and>
   null_or_same (main_mean (bare_cell 62356 45 12))
     (main_mean (default_cell 62356 45 12 0.001 0.01 (Some 0.005) (Some 0.015) 0.0045 0)) \<and>
   null_or_same (hdi_90_lower (bare_cell 62356 45 12))
     (hdi_90_lower (default_cell 62356 45 12 0.001 0.01 (Some 0.005) (Some 0.015) 0.0045 0)) \<and>
   null_or_same (threshold_6 (bare_cell 62356 45 12))
     (threshold_6 (default_cell 62356 45 12 0.001 0.01 (Some 0.005) (Some 0.015) 0.0045 0)) \<and>
   main_mean (bare_cell 62356 45 12) = None \<and> main_mean_ln (bare_cell 62356 45 12) = None \<and>
   main_dich (bare_cell 62356 45 12) = None \<and> threshold_1 (bare_cell 62356 45 12) = None \<and>
   threshold_2 (bare_cell 62356 45 12) = None \<and> threshold_3 (bare_cell 62356 45 12) = None \<and>
   threshold_4 (bare_cell 62356 45 12) = None \<and> threshold_5 (bare_cell 62356 45 12) = None \<and>
   threshold_6 (bare_cell 62356 45 12) = None \<and>
   hdi_50_lower (bare_cell 62356 45 12) = None \<and> hdi_50_upper (bare_cell 62356 45 12) = None \<and>
   hdi_90_lower (bare_cell 62356 45 12) = None \<and> hdi_90_upper (bare_cell 62356 45 12) = None \<and>
   hdi_99_lower (bare_cell 62356 45 12) = None \<and> hdi_99_upper (bare_cell 62356 45 12) = None \<and>
   hdi_50_lower (bare_cell 62356 45 12) =
     hdi_50_lower (default_cell 62356 45 12 0.001 0.01 (Some 0.005) (Some 0.015) 0.0045 0) \<and>
   hdi_99_upper (bare_cell 62356 45 12) =
     hdi_99_upper (default_cell 62356 45 12 0.001 0.01 (Some 0.005) (Some 0.015) 0.0045 0)"
proof -
  have flags: "\<not> include_map no_metrics" "\<not> include_thresholds no_metrics"
    "\<not> include_hdi_50 no_metrics" "\<not> include_hdi_90 no_metrics" "\<not> include_hdi_99 no_metrics"
    "include_hdi_50 no_metrics = include_hdi_50 sample_metrics"
    "include_hdi_99 no_metrics = include_hdi_99 sample_metrics"
    by (simp_all add: no_metrics_def sample_metrics_def)
  have same: "include_map no_metrics = include_map (no_metrics\<lparr>conflict_types := [NON_STATE]\<rparr>)"
    "include_thresholds no_metrics = include_thresholds (no_metrics\<lparr>conflict_types := [NON_STATE]\<rparr>)"
    "include_hdi_50 no_metrics = include_hdi_50 (no_metrics\<lparr>conflict_types := [NON_STATE]\<rparr>)"
    "include_hdi_90 no_metrics = include_hdi_90 (no_metrics\<lparr>conflict_types := [NON_STATE]\<rparr>)"
    "include_hdi_99 no_metrics = include_hdi_99 (no_metrics\<lparr>conflict_types := [NON_STATE]\<rparr>)"
    by simp_all
  have other: "create_grid_cell_data sample_libs (sample_row 62356 548 0.001 0.01)
     (hdi_data sample_store) (timeseries_data sample_store) [1 \<mapsto> ''Testland'']
     (no_metrics\<lparr>conflict_types := [NON_STATE]\<rparr>) (0, 0) = (Inr (bare_cell 62356 45 12), (100, 9))"
    by (simp only: create_grid_cell_data_conflict_types sample_create(2))
  from projection_shape_invariant [OF sample_create(2) [of "(0, 0)"] sample_create(1) [of "(0, 0)"]]
    projection_shape_invariant [OF sample_create(2) [of "(0, 0)"] other]
    sample_create(2) [of "(0, 0)"] sample_create(1) [of "(0, 0)"] other flags same
  show ?thesis by blast
qed

subsection \<open>C10: the conflict-type tag of a record\<close>

text \<open>
  C10: every record the engine returns has \<open>conflict_type\<close> set to the state-based
  tag, for every input and every metric selection, whatever \<open>conflict_types\<close> the
  caller asked for.
\<close>

theorem conflict_type_always_state_based:
  assumes "get_enriched_forecasts L ds grid_ids month_ids metrics g = (Inr cells, g')"
    and "c \<in> set cells"
  shows "conflict_type c = Some STATE_BASED"
proof -
  from assms obtain row cf g1 g2 where
    "create_grid_cell_data L row (hdi_rows_for (get_hdi_data ds grid_ids month_ids) row) cf
       (build_country_map (get_available_countries ds)) metrics g1 = (Inr c, g2)"
    by (rule get_enriched_forecasts_cells)
  then show ?thesis
    by (subst create_grid_cell_data_Inr, assumption) simp
qed

text \<open>
  Witness for C10: the example run with the selection asking for the non-state and the
  one-sided tags.
\<close>

theorem conflict_type_always_state_based_witness:
  "get_enriched_forecasts sample_libs sample_store [62356, 62357, 62358] (Some [548])
     (sample_metrics\<lparr>conflict_types := [NON_STATE, ONE_SIDED]\<rparr>) (0, 0) = (Inr sample_cells, (300, 9)) \<and>
   sample_cells ! 2 \<in> set sample_cells \<and>
   conflict_type (sample_cells ! 2) = Some STATE_BASED"
proof -
  have run: "get_enriched_forecasts sample_libs sample_store [62356, 62357, 62358] (Some [548])
     (sample_metrics\<lparr>conflict_types := [NON_STATE, ONE_SIDED]\<rparr>) (0, 0) = (Inr sample_cells, (300, 9))"
    by (simp add: get_enriched_forecasts_conflict_types sample_run month_filter_def)
  have mem: "sample_cells ! 2 \<in> set sample_cells"
    by (simp add: sample_cells_def)
  from conflict_type_always_state_based [OF run mem] run mem show ?thesis
    by simp
qed

end
